theory Spec2Isabelle
  imports Main
begin

section \<open>Errors and strings\<close>

text \<open>
  A Go \<open>error\<close> value is either an opaque error of a library (\<open>Err\<close>, carrying its
  message) or the provider's own struct \<open>Error{cmd, err, stderr}\<close> of
  \<open>remote_client.go\<close>. A \<open>nil\<close> error is \<open>None\<close> of \<open>go_error option\<close>.
\<close>

datatype go_error = Err string | Error (cmd: string) (err: go_error) (stderr: string)

definition newline :: char where
  "newline = CHR 0x0A"

definition backtick :: char where
  "backtick = CHR 0x60"

text \<open>\<open>strings.TrimRight(s, "\n")\<close>: drops every trailing newline.\<close>

definition TrimRight_newline :: "string \<Rightarrow> string" where
  "TrimRight_newline s = rev (dropWhile (\<lambda>c. c = newline) (rev s))"

text \<open>\<open>strings.ReplaceAll(s, "\n", "")\<close>: removes every newline of \<open>s\<close>.\<close>

definition ReplaceAll_newline :: "string \<Rightarrow> string" where
  "ReplaceAll_newline s = filter (\<lambda>c. c \<noteq> newline) s"

text \<open>The method \<open>Error()\<close>: the message of an error.\<close>

fun Error_text :: "go_error \<Rightarrow> string" where
  "Error_text (Err m) = m"
| "Error_text (Error c e se) =
     [backtick] @ c @ [backtick, newline] @ ''  '' @ Error_text e @ [newline] @ ''  ''
       @ TrimRight_newline se"

section \<open>The remote end of an SSH client\<close>

text \<open>
  The file operations of \<open>RemoteClient\<close> talk to the remote host through
  \<open>c.sshClient\<close>. The remote end is a record of answers, one for each primitive the
  operations call:
  \<^item> \<open>on_NewSession k\<close>: the error of the \<open>k\<close>-th call of \<open>sshClient.NewSession()\<close>
    made by one operation (counted from 0);
  \<^item> \<open>on_StdinPipe\<close>: the error of \<open>session.StdinPipe()\<close>;
  \<^item> \<open>on_Run stdin cmd\<close>: \<open>session.Run(cmd)\<close> with \<open>stdin\<close> written to the
    session's standard input: \<open>None\<close> when the command exits 0, otherwise the error and
    the bytes the command wrote to its standard error;
  \<^item> \<open>on_Output cmd\<close>: \<open>session.Output(cmd)\<close>, an error or the standard output;
  \<^item> \<open>on_NewSCP\<close>, \<open>on_CopyFile content path permissions\<close>: \<open>scp.NewClientBySSH\<close>
    and \<open>scpClient.CopyFile\<close>;
  \<^item> \<open>on_NewSFTP\<close>, \<open>on_Open path\<close>, \<open>on_WriteTo path\<close>, \<open>on_Remove path\<close>:
    \<open>sftp.NewClient\<close>, \<open>sftpClient.Open\<close>, \<open>file.WriteTo\<close> (an error or the content
    read) and \<open>sftpClient.Remove\<close>.
\<close>

record ssh_server =
  on_NewSession :: "nat \<Rightarrow> go_error option"
  on_StdinPipe :: "go_error option"
  on_Run :: "string \<Rightarrow> string \<Rightarrow> (go_error \<times> string) option"
  on_Output :: "string \<Rightarrow> go_error + string"
  on_NewSCP :: "go_error option"
  on_CopyFile :: "string \<Rightarrow> string \<Rightarrow> string \<Rightarrow> go_error option"
  on_NewSFTP :: "go_error option"
  on_Open :: "string \<Rightarrow> go_error option"
  on_WriteTo :: "string \<Rightarrow> go_error + string"
  on_Remove :: "string \<Rightarrow> go_error option"

text \<open>
  What an operation asks of the remote end, in order. The deferred \<open>Close\<close> calls of
  sessions and protocol clients do not change any result and are not recorded. In
  \<open>WriteFileShell\<close> the content is written to the standard input by a goroutine that
  runs beside \<open>session.Run\<close>; the record puts the write before the command.
\<close>

datatype event =
    NewSession
  | StdinPipe
  | StdinWrite string
  | Run string
  | Output string
  | NewSCP
  | CopyFile string string string
  | NewSFTP
  | Open string
  | WriteTo string
  | Remove string

datatype transport = ShellCommand | BulkCopy | NativeTransfer

fun transport_of :: "event \<Rightarrow> transport" where
  "transport_of NewSession = ShellCommand"
| "transport_of StdinPipe = ShellCommand"
| "transport_of (StdinWrite _) = ShellCommand"
| "transport_of (Run _) = ShellCommand"
| "transport_of (Output _) = ShellCommand"
| "transport_of NewSCP = BulkCopy"
| "transport_of (CopyFile _ _ _) = BulkCopy"
| "transport_of NewSFTP = NativeTransfer"
| "transport_of (Open _) = NativeTransfer"
| "transport_of (WriteTo _) = NativeTransfer"
| "transport_of (Remove _) = NativeTransfer"

definition transports :: "event list \<Rightarrow> transport set" where
  "transports tr = set (map transport_of tr)"

text \<open>The shell commands an operation has sent, in order.\<close>

fun commands :: "event list \<Rightarrow> string list" where
  "commands [] = []"
| "commands (Run c # tr) = c # commands tr"
| "commands (Output c # tr) = c # commands tr"
| "commands (_ # tr) = commands tr"


section \<open>File operations of \<open>remote_client.go\<close>\<close>

text \<open>
  Every operation returns its Go result together with the list of events it caused.
  \<open>run\<close> is the helper of the same name: it runs the command with the standard error
  captured and wraps a failure into \<open>Error{cmd, err, stderr}\<close>.
\<close>

definition run :: "ssh_server \<Rightarrow> string \<Rightarrow> string \<Rightarrow> go_error option" where
  "run srv stdin c =
     (case on_Run srv stdin c of
        None \<Rightarrow> None
      | Some (e, b) \<Rightarrow> Some (Error c e b))"

text \<open>\<open>cmd = fmt.Sprintf("sudo %s", cmd)\<close> under \<open>if sudo\<close>.\<close>

definition with_sudo :: "bool \<Rightarrow> string \<Rightarrow> string" where
  "with_sudo sudo c = (if sudo then ''sudo '' @ c else c)"

definition WriteFileSCP :: "ssh_server \<Rightarrow> string \<Rightarrow> string \<Rightarrow> string \<Rightarrow> go_error option \<times> event list" where
  "WriteFileSCP srv content path permissions =
     (case on_NewSCP srv of
        Some e \<Rightarrow> (Some e, [NewSCP])
      | None \<Rightarrow> (on_CopyFile srv content path permissions,
                 [NewSCP, CopyFile content path permissions]))"

definition WriteFileShell :: "ssh_server \<Rightarrow> string \<Rightarrow> string \<Rightarrow> go_error option \<times> event list" where
  "WriteFileShell srv content path =
     (case on_NewSession srv 0 of
        Some e \<Rightarrow> (Some e, [NewSession])
      | None \<Rightarrow>
          (case on_StdinPipe srv of
             Some e \<Rightarrow> (Some e, [NewSession, StdinPipe])
           | None \<Rightarrow>
               (let c = ''cat /dev/stdin | sudo tee '' @ path
                in (run srv content c, [NewSession, StdinPipe, StdinWrite content, Run c]))))"

definition WriteFile :: "ssh_server \<Rightarrow> string \<Rightarrow> string \<Rightarrow> string \<Rightarrow> bool \<Rightarrow> go_error option \<times> event list" where
  "WriteFile srv content path permissions sudo =
     (if sudo then WriteFileShell srv content path
      else WriteFileSCP srv content path permissions)"

definition ChmodFile :: "ssh_server \<Rightarrow> string \<Rightarrow> string \<Rightarrow> bool \<Rightarrow> go_error option \<times> event list" where
  "ChmodFile srv path permissions sudo =
     (case on_NewSession srv 0 of
        Some e \<Rightarrow> (Some e, [NewSession])
      | None \<Rightarrow>
          (let c = with_sudo sudo (''chmod '' @ permissions @ '' '' @ path)
           in (run srv [] c, [NewSession, Run c])))"

definition ChgrpFile :: "ssh_server \<Rightarrow> string \<Rightarrow> string \<Rightarrow> bool \<Rightarrow> go_error option \<times> event list" where
  "ChgrpFile srv path grp sudo =
     (case on_NewSession srv 0 of
        Some e \<Rightarrow> (Some e, [NewSession])
      | None \<Rightarrow>
          (let c = with_sudo sudo (''chgrp '' @ grp @ '' '' @ path)
           in (run srv [] c, [NewSession, Run c])))"

definition ChownFile :: "ssh_server \<Rightarrow> string \<Rightarrow> string \<Rightarrow> bool \<Rightarrow> go_error option \<times> event list" where
  "ChownFile srv path owner sudo =
     (case on_NewSession srv 0 of
        Some e \<Rightarrow> (Some e, [NewSession])
      | None \<Rightarrow>
          (let c = with_sudo sudo (''chown '' @ owner @ '' '' @ path)
           in (run srv [] c, [NewSession, Run c])))"

text \<open>
  \<open>FileExists\<close> returns \<open>(bool, error)\<close>. The error of the first probe is dropped; the
  second probe calls \<open>session2.Run\<close> itself, not the helper \<open>run\<close>, so its error is the
  one of the library.
\<close>

definition FileExists :: "ssh_server \<Rightarrow> string \<Rightarrow> bool \<Rightarrow> (bool \<times> go_error option) \<times> event list" where
  "FileExists srv path sudo =
     (case on_NewSession srv 0 of
        Some e \<Rightarrow> ((False, Some e), [NewSession])
      | None \<Rightarrow>
          (let c = with_sudo sudo (''test -f '' @ path)
           in case run srv [] c of
                Some _ \<Rightarrow>
                  (case on_NewSession srv 1 of
                     Some e \<Rightarrow> ((False, Some e), [NewSession, Run c, NewSession])
                   | None \<Rightarrow>
                       (let c2 = with_sudo sudo (''test ! -f '' @ path)
                        in ((False, map_option fst (on_Run srv [] c2)),
                            [NewSession, Run c, NewSession, Run c2])))
              | None \<Rightarrow> ((True, None), [NewSession, Run c])))"

definition ReadFileSFTP :: "ssh_server \<Rightarrow> string \<Rightarrow> (go_error + string) \<times> event list" where
  "ReadFileSFTP srv path =
     (case on_NewSFTP srv of
        Some e \<Rightarrow> (Inl e, [NewSFTP])
      | None \<Rightarrow>
          (case on_Open srv path of
             Some e \<Rightarrow> (Inl e, [NewSFTP, Open path])
           | None \<Rightarrow>
               (case on_WriteTo srv path of
                  Inl e \<Rightarrow> (Inl e, [NewSFTP, Open path, WriteTo path])
                | Inr content \<Rightarrow> (Inr content, [NewSFTP, Open path, WriteTo path]))))"

definition ReadFileShell :: "ssh_server \<Rightarrow> string \<Rightarrow> (go_error + string) \<times> event list" where
  "ReadFileShell srv path =
     (case on_NewSession srv 0 of
        Some e \<Rightarrow> (Inl e, [NewSession])
      | None \<Rightarrow>
          (let c = ''sudo cat '' @ path
           in case on_Output srv c of
                Inl e \<Rightarrow> (Inl e, [NewSession, Output c])
              | Inr content \<Rightarrow> (Inr content, [NewSession, Output c])))"

definition ReadFile :: "ssh_server \<Rightarrow> string \<Rightarrow> bool \<Rightarrow> (go_error + string) \<times> event list" where
  "ReadFile srv path sudo =
     (if sudo then ReadFileShell srv path else ReadFileSFTP srv path)"

text \<open>
  The last step of \<open>ReadFilePermissions\<close> on the output of \<open>stat\<close>: the newlines are
  removed and \<open>fmt.Sprintf("0%s", permissions)\<close> is applied when the length is
  between 1 and 3.
\<close>

definition pad_permissions :: "string \<Rightarrow> string" where
  "pad_permissions output =
     (let permissions = ReplaceAll_newline output
      in if length permissions > 0 \<and> length permissions < 4
         then ''0'' @ permissions else permissions)"

definition ReadFilePermissions :: "ssh_server \<Rightarrow> string \<Rightarrow> bool \<Rightarrow> (go_error + string) \<times> event list" where
  "ReadFilePermissions srv path sudo =
     (case on_NewSession srv 0 of
        Some e \<Rightarrow> (Inl e, [NewSession])
      | None \<Rightarrow>
          (let c = with_sudo sudo (''stat -c %a '' @ path)
           in case on_Output srv c of
                Inl e \<Rightarrow> (Inl e, [NewSession, Output c])
              | Inr output \<Rightarrow> (Inr (pad_permissions output), [NewSession, Output c])))"

definition StatFile :: "ssh_server \<Rightarrow> string \<Rightarrow> string \<Rightarrow> bool \<Rightarrow> (go_error + string) \<times> event list" where
  "StatFile srv path char sudo =
     (case on_NewSession srv 0 of
        Some e \<Rightarrow> (Inl e, [NewSession])
      | None \<Rightarrow>
          (let c = with_sudo sudo (''stat -c %'' @ char @ '' '' @ path)
           in case on_Output srv c of
                Inl e \<Rightarrow> (Inl e, [NewSession, Output c])
              | Inr output \<Rightarrow> (Inr (ReplaceAll_newline output), [NewSession, Output c])))"

definition ReadFileOwner :: "ssh_server \<Rightarrow> string \<Rightarrow> bool \<Rightarrow> (go_error + string) \<times> event list" where
  "ReadFileOwner srv path sudo = StatFile srv path ''u'' sudo"

definition ReadFileGroup :: "ssh_server \<Rightarrow> string \<Rightarrow> bool \<Rightarrow> (go_error + string) \<times> event list" where
  "ReadFileGroup srv path sudo = StatFile srv path ''g'' sudo"

definition ReadFileOwnerName :: "ssh_server \<Rightarrow> string \<Rightarrow> bool \<Rightarrow> (go_error + string) \<times> event list" where
  "ReadFileOwnerName srv path sudo = StatFile srv path ''U'' sudo"

definition ReadFileGroupName :: "ssh_server \<Rightarrow> string \<Rightarrow> bool \<Rightarrow> (go_error + string) \<times> event list" where
  "ReadFileGroupName srv path sudo = StatFile srv path ''G'' sudo"

definition DeleteFileSFTP :: "ssh_server \<Rightarrow> string \<Rightarrow> go_error option \<times> event list" where
  "DeleteFileSFTP srv path =
     (case on_NewSFTP srv of
        Some e \<Rightarrow> (Some e, [NewSFTP])
      | None \<Rightarrow> (on_Remove srv path, [NewSFTP, Remove path]))"

definition DeleteFileShell :: "ssh_server \<Rightarrow> string \<Rightarrow> go_error option \<times> event list" where
  "DeleteFileShell srv path =
     (case on_NewSession srv 0 of
        Some e \<Rightarrow> (Some e, [NewSession])
      | None \<Rightarrow>
          (let c = ''sudo rm '' @ path
           in (run srv [] c, [NewSession, Run c])))"

definition DeleteFile :: "ssh_server \<Rightarrow> string \<Rightarrow> bool \<Rightarrow> go_error option \<times> event list" where
  "DeleteFile srv path sudo =
     (if sudo then DeleteFileShell srv path else DeleteFileSFTP srv path)"

section \<open>Establishing connections\<close>

text \<open>
  \<open>ssh.ClientConfig\<close> as \<open>connFromResourceData\<close> fills it: the user, the
  authentication methods in the order they were appended, and the timeout in
  nanoseconds. \<open>HostKeyCallback\<close> is always \<open>ssh.InsecureIgnoreHostKey()\<close> and is left
  out. \<open>PublicKeys k\<close> stands for \<open>ssh.PublicKeys(signer)\<close> with the signer parsed from
  the key text \<open>k\<close>, \<open>PublicKeysCallback sock\<close> for the agent reached at socket \<open>sock\<close>.
\<close>

datatype AuthMethod = Password string | PublicKeys string | PublicKeysCallback string

record ClientConfig =
  User :: string
  Auth :: "AuthMethod list"
  Timeout :: int

text \<open>
  The network as the two constructors see it: \<open>ssh_Dial addr cfg\<close> is the error of
  \<open>ssh.Dial("tcp", addr, cfg)\<close>, \<open>client_Dial proxy addr\<close> the error of
  \<open>proxyClient.Dial("tcp", addr)\<close> on the client connected to \<open>proxy\<close>, and
  \<open>ssh_NewClientConn addr cfg\<close> the error of \<open>ssh.NewClientConn(conn, addr, cfg)\<close>.
\<close>

record network =
  ssh_Dial :: "string \<Rightarrow> ClientConfig \<Rightarrow> go_error option"
  client_Dial :: "string \<Rightarrow> string \<Rightarrow> go_error option"
  ssh_NewClientConn :: "string \<Rightarrow> ClientConfig \<Rightarrow> go_error option"

datatype net_event =
    Dial string ClientConfig
  | TunnelDial string string
  | NewClientConn string ClientConfig

text \<open>
  A \<open>*RemoteClient\<close> is known by the address of the \<open>ssh.Client\<close> it owns; the
  constructors get the address of the next allocation as an argument.
\<close>

record RemoteClient =
  sshClient :: nat

definition couldnt_establish :: string where
  "couldnt_establish = ''couldn't establish a connection to the remote server: ''"

definition NewRemoteClient ::
  "network \<Rightarrow> nat \<Rightarrow> string \<Rightarrow> ClientConfig \<Rightarrow> (go_error + RemoteClient) \<times> net_event list" where
  "NewRemoteClient net a host clientConfig =
     (case ssh_Dial net host clientConfig of
        Some e \<Rightarrow> (Inl (Err (couldnt_establish @ Error_text e)), [Dial host clientConfig])
      | None \<Rightarrow> (Inr \<lparr>sshClient = a\<rparr>, [Dial host clientConfig]))"

definition NewRemoteProxyClient ::
  "network \<Rightarrow> nat \<Rightarrow> string \<Rightarrow> ClientConfig \<Rightarrow> string \<Rightarrow> ClientConfig
     \<Rightarrow> (go_error + RemoteClient) \<times> net_event list" where
  "NewRemoteProxyClient net a host clientConfig proxyHost proxyClientConfig =
     (case ssh_Dial net proxyHost proxyClientConfig of
        Some e \<Rightarrow>
          (Inl (Err (couldnt_establish @ Error_text e)), [Dial proxyHost proxyClientConfig])
      | None \<Rightarrow>
          (case client_Dial net proxyHost host of
             Some e \<Rightarrow>
               (Inl (Err (couldnt_establish @ Error_text e)),
                [Dial proxyHost proxyClientConfig, TunnelDial proxyHost host])
           | None \<Rightarrow>
               (case ssh_NewClientConn net host clientConfig of
                  Some e \<Rightarrow>
                    (Inl e,
                     [Dial proxyHost proxyClientConfig, TunnelDial proxyHost host,
                      NewClientConn host clientConfig])
                | None \<Rightarrow>
                    (Inr \<lparr>sshClient = a\<rparr>,
                     [Dial proxyHost proxyClientConfig, TunnelDial proxyHost host,
                      NewClientConn host clientConfig]))))"

section \<open>Go integers and their text\<close>

text \<open>
  A Go \<open>int\<close> is a 64-bit signed integer; \<open>wrap64\<close> is the value an arithmetic result
  takes in that type.
\<close>

definition wrap64 :: "int \<Rightarrow> int" where
  "wrap64 x = (x + 2 ^ 63) mod 2 ^ 64 - 2 ^ 63"

definition int64 :: "int \<Rightarrow> bool" where
  "int64 x = (- (2 ^ 63) \<le> x \<and> x < 2 ^ 63)"

definition digit_char :: "nat \<Rightarrow> char" where
  "digit_char d = ''0123456789'' ! d"

fun digits :: "nat \<Rightarrow> string" where
  "digits n = (if n < 10 then [digit_char n] else digits (n div 10) @ [digit_char (n mod 10)])"

declare digits.simps [simp del]

text \<open>\<open>strconv.Itoa\<close>, \<open>strconv.FormatBool\<close> and \<open>strings.Join\<close>.\<close>

definition Itoa :: "int \<Rightarrow> string" where
  "Itoa i = (if i < 0 then ''-'' @ digits (nat (- i)) else digits (nat i))"

definition FormatBool :: "bool \<Rightarrow> string" where
  "FormatBool b = (if b then ''true'' else ''false'')"

fun Join :: "string list \<Rightarrow> string \<Rightarrow> string" where
  "Join [] sep = []"
| "Join [x] sep = x"
| "Join (x # y # ys) sep = x @ sep @ Join (y # ys) sep"

section \<open>Configuration data\<close>

text \<open>
  One \<open>conn\<close> or \<open>proxy_conn\<close> block of the schema \<open>connectionSchemaResource\<close>. A
  \<open>schema.ResourceData\<close> holds each block as a list of at most one item. \<open>d.Get\<close> on a
  key of a missing block gives the zero value of the key's type; \<open>d.GetOk\<close> gives the
  value and whether it is set and differs from the zero value.
\<close>

record connection =
  host :: string
  port :: int
  timeout :: int
  user :: string
  sudo :: bool
  agent :: bool
  password :: string
  private_key :: string
  private_key_path :: string
  private_key_env_var :: string

record ResourceData =
  conn :: "connection list"
  proxy_conn :: "connection list"

definition Get_string :: "connection list \<Rightarrow> (connection \<Rightarrow> string) \<Rightarrow> string" where
  "Get_string blk key = (case blk of [] \<Rightarrow> [] | c # _ \<Rightarrow> key c)"

definition Get_int :: "connection list \<Rightarrow> (connection \<Rightarrow> int) \<Rightarrow> int" where
  "Get_int blk key = (case blk of [] \<Rightarrow> 0 | c # _ \<Rightarrow> key c)"

definition Get_bool :: "connection list \<Rightarrow> (connection \<Rightarrow> bool) \<Rightarrow> bool" where
  "Get_bool blk key = (case blk of [] \<Rightarrow> False | c # _ \<Rightarrow> key c)"

definition GetOk_string :: "connection list \<Rightarrow> (connection \<Rightarrow> string) \<Rightarrow> string \<times> bool" where
  "GetOk_string blk key = (Get_string blk key, Get_string blk key \<noteq> [])"

definition GetOk_int :: "connection list \<Rightarrow> (connection \<Rightarrow> int) \<Rightarrow> int \<times> bool" where
  "GetOk_int blk key = (Get_int blk key, Get_int blk key \<noteq> 0)"

definition GetOk_bool :: "connection list \<Rightarrow> (connection \<Rightarrow> bool) \<Rightarrow> bool \<times> bool" where
  "GetOk_bool blk key = (Get_bool blk key, Get_bool blk key)"

definition resourceStringWithDefault :: "connection list \<Rightarrow> (connection \<Rightarrow> string) \<Rightarrow> string \<Rightarrow> string" where
  "resourceStringWithDefault blk key defaultValue =
     (case GetOk_string blk key of (str, ok) \<Rightarrow> if ok then str else defaultValue)"

definition resourceIntWithDefault :: "connection list \<Rightarrow> (connection \<Rightarrow> int) \<Rightarrow> string \<Rightarrow> string" where
  "resourceIntWithDefault blk key defaultValue =
     (case GetOk_int blk key of (integer, ok) \<Rightarrow> if ok then Itoa integer else defaultValue)"

definition resourceBoolWithDefault :: "connection list \<Rightarrow> (connection \<Rightarrow> bool) \<Rightarrow> string \<Rightarrow> string" where
  "resourceBoolWithDefault blk key defaultValue =
     (case GetOk_bool blk key of (boolean, ok) \<Rightarrow> if ok then FormatBool boolean else defaultValue)"

definition resourceConnectionHash :: "ResourceData \<Rightarrow> string" where
  "resourceConnectionHash d =
     Join
       [Get_string (conn d) host,
        Get_string (conn d) user,
        Itoa (Get_int (conn d) port),
        resourceStringWithDefault (conn d) password [],
        resourceStringWithDefault (conn d) private_key [],
        resourceStringWithDefault (conn d) private_key_path [],
        FormatBool (Get_bool (conn d) agent),
        resourceStringWithDefault (proxy_conn d) host [],
        resourceStringWithDefault (proxy_conn d) user [],
        resourceIntWithDefault (proxy_conn d) port [],
        resourceStringWithDefault (proxy_conn d) password [],
        resourceStringWithDefault (proxy_conn d) private_key [],
        resourceStringWithDefault (proxy_conn d) private_key_path [],
        resourceBoolWithDefault (proxy_conn d) agent []]
       ''::''"

text \<open>
  The local machine as \<open>connFromResourceData\<close> sees it: \<open>ssh_ParsePrivateKey\<close> is the
  error of \<open>ssh.ParsePrivateKey\<close>, \<open>ioutil_ReadFile\<close> reads a file, \<open>os_Getenv\<close> an
  environment variable, and \<open>net_Dial_unix\<close> is the error of dialling a socket.
\<close>

record local_env =
  ssh_ParsePrivateKey :: "string \<Rightarrow> go_error option"
  ioutil_ReadFile :: "string \<Rightarrow> go_error + string"
  os_Getenv :: "string \<Rightarrow> string"
  net_Dial_unix :: "string \<Rightarrow> go_error option"

text \<open>
  \<open>connFromResourceData\<close> for the block \<open>c\<close> that its prefix names. The steps are
  the five credentials in the order of the source, each either failing the call or
  appending to \<open>clientConfig.Auth\<close>, then the timeout and the address.
\<close>

definition auth_password :: "connection \<Rightarrow> AuthMethod list \<Rightarrow> AuthMethod list" where
  "auth_password c auth = (if password c \<noteq> [] then auth @ [Password (password c)] else auth)"

definition auth_private_key :: "local_env \<Rightarrow> connection \<Rightarrow> AuthMethod list \<Rightarrow> go_error + AuthMethod list" where
  "auth_private_key env c auth =
     (if private_key c \<noteq> [] then
        (case ssh_ParsePrivateKey env (private_key c) of
           Some e \<Rightarrow> Inl (Err (''couldn't create a ssh client config from private key: '' @ Error_text e))
         | None \<Rightarrow> Inr (auth @ [PublicKeys (private_key c)]))
      else Inr auth)"

definition auth_private_key_path :: "local_env \<Rightarrow> connection \<Rightarrow> AuthMethod list \<Rightarrow> go_error + AuthMethod list" where
  "auth_private_key_path env c auth =
     (if private_key_path c \<noteq> [] then
        (case ioutil_ReadFile env (private_key_path c) of
           Inl e \<Rightarrow> Inl (Err (''couldn't read private key: '' @ Error_text e))
         | Inr content \<Rightarrow>
             (case ssh_ParsePrivateKey env content of
                Some e \<Rightarrow> Inl (Err (''couldn't create a ssh client config from private key file: '' @ Error_text e))
              | None \<Rightarrow> Inr (auth @ [PublicKeys content])))
      else Inr auth)"

definition auth_private_key_env_var :: "local_env \<Rightarrow> connection \<Rightarrow> AuthMethod list \<Rightarrow> go_error + AuthMethod list" where
  "auth_private_key_env_var env c auth =
     (if private_key_env_var c \<noteq> [] then
        (let k = os_Getenv env (private_key_env_var c)
         in case ssh_ParsePrivateKey env k of
              Some e \<Rightarrow> Inl (Err (''couldn't create a ssh client config from private key env var: '' @ Error_text e))
            | None \<Rightarrow> Inr (auth @ [PublicKeys k]))
      else Inr auth)"

definition auth_agent :: "local_env \<Rightarrow> connection \<Rightarrow> AuthMethod list \<Rightarrow> go_error + AuthMethod list" where
  "auth_agent env c auth =
     (if agent c then
        (let sock = os_Getenv env ''SSH_AUTH_SOCK''
         in case net_Dial_unix env sock of
              Some e \<Rightarrow> Inl (Err (''couldn't connect to SSH agent: '' @ Error_text e))
            | None \<Rightarrow> Inr (auth @ [PublicKeysCallback sock]))
      else Inr auth)"

definition connFromResourceData :: "local_env \<Rightarrow> connection \<Rightarrow> go_error + string \<times> ClientConfig" where
  "connFromResourceData env c =
     (case auth_private_key env c (auth_password c []) of
        Inl e \<Rightarrow> Inl e
      | Inr auth1 \<Rightarrow>
     (case auth_private_key_path env c auth1 of
        Inl e \<Rightarrow> Inl e
      | Inr auth2 \<Rightarrow>
     (case auth_private_key_env_var env c auth2 of
        Inl e \<Rightarrow> Inl e
      | Inr auth3 \<Rightarrow>
     (case auth_agent env c auth3 of
        Inl e \<Rightarrow> Inl e
      | Inr auth4 \<Rightarrow>
          Inr (host c @ '':'' @ Itoa (port c),
               \<lparr>User = user c, Auth = auth4,
                Timeout = (if timeout c \<noteq> 0 then wrap64 (timeout c * 1000000) else 0)\<rparr>)))))"

definition ConnectionFromResourceData :: "local_env \<Rightarrow> ResourceData \<Rightarrow> go_error + string \<times> ClientConfig" where
  "ConnectionFromResourceData env d =
     (case conn d of
        [] \<Rightarrow> Inl (Err ''resouce does not have a connection configured'')
      | c # _ \<Rightarrow> connFromResourceData env c)"

text \<open>A missing proxy block gives the empty address and the \<open>nil\<close> configuration.\<close>

definition ProxyConnectionFromResourceData :: "local_env \<Rightarrow> ResourceData \<Rightarrow> go_error + string \<times> ClientConfig option" where
  "ProxyConnectionFromResourceData env d =
     (case proxy_conn d of
        [] \<Rightarrow> Inr ([], None)
      | c # _ \<Rightarrow>
          (case connFromResourceData env c of
             Inl e \<Rightarrow> Inl e
           | Inr (h, cfg) \<Rightarrow> Inr (h, Some cfg)))"

definition remoteClientFromResourceData ::
  "local_env \<Rightarrow> network \<Rightarrow> nat \<Rightarrow> ResourceData \<Rightarrow> (go_error + RemoteClient) \<times> net_event list" where
  "remoteClientFromResourceData env net a d =
     (case ConnectionFromResourceData env d of
        Inl e \<Rightarrow> (Inl e, [])
      | Inr (h, clientConfig) \<Rightarrow>
          (case ProxyConnectionFromResourceData env d of
             Inl e \<Rightarrow> (Inl e, [])
           | Inr (proxyHost, proxyClientConfig) \<Rightarrow>
               (case proxyClientConfig of
                  Some pcfg \<Rightarrow>
                    (if proxyHost \<noteq> [] then NewRemoteProxyClient net a h clientConfig proxyHost pcfg
                     else NewRemoteClient net a h clientConfig)
                | None \<Rightarrow> NewRemoteClient net a h clientConfig)))"

section \<open>The connection pool of \<open>provider.go\<close>\<close>

text \<open>
  The struct \<open>apiClient\<close> with its two maps and the ceiling. The field \<open>mux\<close> is the
  lock under which every access below happens; the field \<open>resourceData\<close> is not read by
  the two pool functions. Reading a missing key of a Go \<open>map[string]int\<close> gives 0.
\<close>

record apiClient =
  remoteClients :: "string \<rightharpoonup> RemoteClient"
  activeSessions :: "string \<rightharpoonup> int"
  maxSessions :: int

definition sessions :: "apiClient \<Rightarrow> string \<Rightarrow> int" where
  "sessions c k = (case activeSessions c k of None \<Rightarrow> 0 | Some n \<Rightarrow> n)"

text \<open>
  The pool together with what happens outside it: how many clients have been allocated
  (the next client gets this number as its address) and the clients on which \<open>Close\<close>
  has been called, in order.
\<close>

record world =
  pool :: apiClient
  allocated :: nat
  closed :: "RemoteClient list"

text \<open>\<open>configure\<close>: the pool a provider starts with.\<close>

definition configure :: "int \<Rightarrow> world" where
  "configure max_sessions =
     \<lparr>pool = \<lparr>remoteClients = Map.empty, activeSessions = Map.empty,
              maxSessions = max_sessions\<rparr>,
      allocated = 0, closed = []\<rparr>"

text \<open>
  One pass through the body of the \<open>for\<close> loop of \<open>getRemoteClient\<close>, from
  \<open>c.mux.Lock()\<close> to the \<open>continue\<close> (after \<open>c.mux.Unlock()\<close>) or to a \<open>return\<close> (with
  the deferred \<open>c.mux.Unlock()\<close>): the lock makes it one atomic step on the pool.
\<close>

datatype 'a attempt = Retry | Return 'a

definition getRemoteClient_pass ::
  "local_env \<Rightarrow> network \<Rightarrow> ResourceData \<Rightarrow> world \<Rightarrow> (go_error + RemoteClient) attempt \<times> world" where
  "getRemoteClient_pass env net d w =
     (let connectionID = resourceConnectionHash d; c = pool w
      in case remoteClients c connectionID of
           Some client \<Rightarrow>
             (if sessions c connectionID \<ge> maxSessions c then (Retry, w)
              else (Return (Inr client),
                    w\<lparr>pool := c\<lparr>activeSessions :=
                      (activeSessions c)(connectionID \<mapsto> wrap64 (sessions c connectionID + 1))\<rparr>\<rparr>))
         | None \<Rightarrow>
             (case fst (remoteClientFromResourceData env net (allocated w) d) of
                Inl e \<Rightarrow> (Return (Inl e), w)
              | Inr client \<Rightarrow>
                  (Return (Inr client),
                   w\<lparr>pool := c\<lparr>remoteClients := (remoteClients c)(connectionID \<mapsto> client),
                                activeSessions := (activeSessions c)(connectionID \<mapsto> 1)\<rparr>,
                     allocated := Suc (allocated w)\<rparr>)))"

text \<open>
  \<open>getRemoteClient\<close> run with no other caller between its passes: the loop repeats the
  pass until it returns. When the pool is full for the identity no pass changes the pool,
  and the call does not return (\<open>None\<close>).
\<close>

partial_function (option) getRemoteClient ::
  "local_env \<Rightarrow> network \<Rightarrow> ResourceData \<Rightarrow> world \<Rightarrow> ((go_error + RemoteClient) \<times> world) option" where
  "getRemoteClient env net d w =
     (case getRemoteClient_pass env net d w of
        (Retry, w') \<Rightarrow> getRemoteClient env net d w'
      | (Return r, w') \<Rightarrow> Some (r, w'))"

text \<open>
  \<open>closeRemoteClient\<close>. \<open>on_Close\<close> is the error of \<open>client.Close()\<close>. When the counter
  reaches 0 and the map has no client for the identity, \<open>client\<close> is \<open>nil\<close> and
  \<open>client.Close()\<close> panics on the nil pointer (after the decrement and the \<open>delete\<close>).
\<close>

datatype 'a outcome = Panic | Returned 'a

definition closeRemoteClient ::
  "(RemoteClient \<Rightarrow> go_error option) \<Rightarrow> ResourceData \<Rightarrow> world \<Rightarrow> go_error option outcome \<times> world" where
  "closeRemoteClient on_Close d w =
     (let connectionID = resourceConnectionHash d; c = pool w;
          n = wrap64 (sessions c connectionID - 1);
          c1 = c\<lparr>activeSessions := (activeSessions c)(connectionID \<mapsto> n)\<rparr>
      in if n = 0 then
           (case remoteClients c1 connectionID of
              None \<Rightarrow> (Panic, w\<lparr>pool := c1\<rparr>)
            | Some client \<Rightarrow>
                (Returned (on_Close client),
                 w\<lparr>pool := c1\<lparr>remoteClients := (remoteClients c1)(connectionID := None)\<rparr>,
                   closed := closed w @ [client]\<rparr>))
         else (Returned None, w\<lparr>pool := c1\<rparr>))"

text \<open>
  Callers on several goroutines share the pool. Each critical section is one call
  below: a pass of \<open>getRemoteClient\<close> or a whole \<open>closeRemoteClient\<close>. A history of the
  pool is a list of such calls in the order the lock was taken.
\<close>

datatype call =
    Acquire local_env network ResourceData
  | Release "RemoteClient \<Rightarrow> go_error option" ResourceData

fun step :: "call \<Rightarrow> world \<Rightarrow> world" where
  "step (Acquire env net d) w = snd (getRemoteClient_pass env net d w)"
| "step (Release on_Close d) w = snd (closeRemoteClient on_Close d w)"

fun run_calls :: "call list \<Rightarrow> world \<Rightarrow> world" where
  "run_calls [] w = w"
| "run_calls (c # cs) w = run_calls cs (step c w)"






section \<open>Concrete remote ends\<close>

text \<open>
  Remote ends used to run the operations on concrete inputs: one on which every
  primitive succeeds, one on which every command fails with exit status 1, one on which
  \<open>/tmp/x\<close> is missing, one whose \<open>stat\<close> prints a given text, and one on which
  every file reads as \<open>hello\<close>.
\<close>

definition quiet_server :: ssh_server where
  "quiet_server =
     \<lparr>on_NewSession = (\<lambda>k. None), on_StdinPipe = None, on_Run = (\<lambda>stdin c. None),
      on_Output = (\<lambda>c. Inr []), on_NewSCP = None, on_CopyFile = (\<lambda>content path p. None),
      on_NewSFTP = None, on_Open = (\<lambda>path. None), on_WriteTo = (\<lambda>path. Inr []),
      on_Remove = (\<lambda>path. None)\<rparr>"

definition exit_1 :: go_error where
  "exit_1 = Err ''Process exited with status 1''"

definition failing_server :: ssh_server where
  "failing_server =
     quiet_server\<lparr>on_Run := (\<lambda>stdin c. Some (exit_1, ''Permission denied'')),
                  on_Output := (\<lambda>c. Inl exit_1)\<rparr>"

definition missing_file_server :: ssh_server where
  "missing_file_server =
     quiet_server\<lparr>on_Run := (\<lambda>stdin c. if c = ''test -f /tmp/x'' then Some (exit_1, []) else None)\<rparr>"

definition stat_server :: "string \<Rightarrow> ssh_server" where
  "stat_server output = quiet_server\<lparr>on_Output := (\<lambda>c. Inr output)\<rparr>"

definition hello_server :: ssh_server where
  "hello_server =
     quiet_server\<lparr>on_Output := (\<lambda>c. Inr ''hello''), on_WriteTo := (\<lambda>path. Inr ''hello'')\<rparr>"

text \<open>Whether an error is the struct \<open>Error\<close> of \<open>remote_client.go\<close>.\<close>

definition is_Error :: "go_error \<Rightarrow> bool" where
  "is_Error e = (case e of Err m \<Rightarrow> False | Error c u b \<Rightarrow> True)"


section \<open>Concrete configurations, machines and networks\<close>

text \<open>
  The connection of \<open>playground/main.tf\<close>, two connections that differ only in the
  name of the environment variable holding the key, a local machine on which every step
  succeeds, a network on which every stage succeeds, one on which every dial times out,
  and three on which one stage of a proxied connection fails with the error text that
  the SSH library gives for it: the proxy refuses the connection, the proxy rejects the
  tunnel, the target rejects the password.
\<close>

definition conn0 :: connection where
  "conn0 =
     \<lparr>host = ''localhost'', port = 8022, timeout = 0, user = ''root'', sudo = False,
      agent = False, password = ''password'', private_key = [], private_key_path = [],
      private_key_env_var = []\<rparr>"

definition d0 :: ResourceData where
  "d0 = \<lparr>conn = [conn0], proxy_conn = []\<rparr>"

definition conn_key_A :: connection where
  "conn_key_A = conn0\<lparr>password := [], private_key_env_var := ''KEY_A''\<rparr>"

definition conn_key_B :: connection where
  "conn_key_B = conn0\<lparr>password := [], private_key_env_var := ''KEY_B''\<rparr>"

definition env0 :: local_env where
  "env0 =
     \<lparr>ssh_ParsePrivateKey = (\<lambda>k. None), ioutil_ReadFile = (\<lambda>p. Inr []),
      os_Getenv = (\<lambda>v. []), net_Dial_unix = (\<lambda>s. None)\<rparr>"


definition timed_out :: go_error where
  "timed_out = Err ''i/o timeout''"

definition net_up :: network where
  "net_up =
     \<lparr>ssh_Dial = (\<lambda>addr cfg. None), client_Dial = (\<lambda>proxy addr. None),
      ssh_NewClientConn = (\<lambda>addr cfg. None)\<rparr>"

definition net_down :: network where
  "net_down = net_up\<lparr>ssh_Dial := (\<lambda>addr cfg. Some timed_out)\<rparr>"







definition close_ok :: "RemoteClient \<Rightarrow> go_error option" where
  "close_ok client = None"

section \<open>Invariants of the pool\<close>


definition clients_fresh :: "world \<Rightarrow> bool" where
  "clients_fresh w =
     (distinct (closed w) \<and>
      (\<forall>c. c \<in> set (closed w) \<longrightarrow> sshClient c < allocated w) \<and>
      (\<forall>k c. remoteClients (pool w) k = Some c \<longrightarrow>
         sshClient c < allocated w \<and> c \<notin> set (closed w)) \<and>
      (\<forall>k k' c. remoteClients (pool w) k = Some c \<longrightarrow> remoteClients (pool w) k' = Some c \<longrightarrow>
         k = k'))"

definition counted :: "int \<Rightarrow> world \<Rightarrow> bool" where
  "counted n w =
     (\<forall>k. case remoteClients (pool w) k of
            Some x \<Rightarrow> 1 \<le> sessions (pool w) k \<and> sessions (pool w) k < 2 ^ 63
          | None \<Rightarrow> - n \<le> sessions (pool w) k \<and> sessions (pool w) k \<le> 0)"

section \<open>Routing of the file operations\<close>

lemma transports_simps:
  "transports [] = {}" "transports (e # tr) = insert (transport_of e) (transports tr)"
  by (simp_all add: transports_def)

lemma ChmodFile_routing:
  "transports (snd (ChmodFile srv path permissions elev)) = {ShellCommand} \<and>
   commands (snd (ChmodFile srv path permissions elev)) =
     (if on_NewSession srv 0 = None
      then [(if elev then ''sudo chmod '' else ''chmod '') @ permissions @ '' '' @ path] else [])"
  by (simp add: ChmodFile_def with_sudo_def transports_simps Let_def split: option.split)

lemma ChownFile_routing:
  "transports (snd (ChownFile srv path owner elev)) = {ShellCommand} \<and>
   commands (snd (ChownFile srv path owner elev)) =
     (if on_NewSession srv 0 = None
      then [(if elev then ''sudo chown '' else ''chown '') @ owner @ '' '' @ path] else [])"
  by (simp add: ChownFile_def with_sudo_def transports_simps Let_def split: option.split)

lemma ChgrpFile_routing:
  "transports (snd (ChgrpFile srv path grp elev)) = {ShellCommand} \<and>
   commands (snd (ChgrpFile srv path grp elev)) =
     (if on_NewSession srv 0 = None
      then [(if elev then ''sudo chgrp '' else ''chgrp '') @ grp @ '' '' @ path] else [])"
  by (simp add: ChgrpFile_def with_sudo_def transports_simps Let_def split: option.split)

lemma WriteFile_routing:
  "transports (snd (WriteFile srv content path permissions True)) = {ShellCommand} \<and>
   commands (snd (WriteFile srv content path permissions True)) =
     (if on_NewSession srv 0 = None \<and> on_StdinPipe srv = None
      then [''cat /dev/stdin | sudo tee '' @ path] else []) \<and>
   transports (snd (WriteFile srv content path permissions False)) = {BulkCopy} \<and>
   commands (snd (WriteFile srv content path permissions False)) = []"
  by (simp add: WriteFile_def WriteFileShell_def WriteFileSCP_def transports_simps Let_def
      split: option.split)

lemma ReadFile_routing:
  "transports (snd (ReadFile srv path True)) = {ShellCommand} \<and>
   commands (snd (ReadFile srv path True)) =
     (if on_NewSession srv 0 = None then [''sudo cat '' @ path] else []) \<and>
   transports (snd (ReadFile srv path False)) = {NativeTransfer} \<and>
   commands (snd (ReadFile srv path False)) = []"
  by (simp add: ReadFile_def ReadFileShell_def ReadFileSFTP_def transports_simps Let_def
      split: option.split sum.split)

lemma DeleteFile_routing:
  "transports (snd (DeleteFile srv path True)) = {ShellCommand} \<and>
   commands (snd (DeleteFile srv path True)) =
     (if on_NewSession srv 0 = None then [''sudo rm '' @ path] else []) \<and>
   transports (snd (DeleteFile srv path False)) = {NativeTransfer} \<and>
   commands (snd (DeleteFile srv path False)) = []"
  by (simp add: DeleteFile_def DeleteFileShell_def DeleteFileSFTP_def transports_simps Let_def
      split: option.split)

lemma routing_transports:
  "(transports (snd (ChmodFile srv path permissions elev)) = {ShellCommand} \<and>
    commands (snd (ChmodFile srv path permissions elev)) =
      (if on_NewSession srv 0 = None
       then [(if elev then ''sudo chmod '' else ''chmod '') @ permissions @ '' '' @ path] else [])) \<and>
   (transports (snd (ChownFile srv path owner elev)) = {ShellCommand} \<and>
    commands (snd (ChownFile srv path owner elev)) =
      (if on_NewSession srv 0 = None
       then [(if elev then ''sudo chown '' else ''chown '') @ owner @ '' '' @ path] else [])) \<and>
   (transports (snd (ChgrpFile srv path grp elev)) = {ShellCommand} \<and>
    commands (snd (ChgrpFile srv path grp elev)) =
      (if on_NewSession srv 0 = None
       then [(if elev then ''sudo chgrp '' else ''chgrp '') @ grp @ '' '' @ path] else [])) \<and>
   (transports (snd (WriteFile srv content path permissions True)) = {ShellCommand} \<and>
    commands (snd (WriteFile srv content path permissions True)) =
      (if on_NewSession srv 0 = None \<and> on_StdinPipe srv = None
       then [''cat /dev/stdin | sudo tee '' @ path] else []) \<and>
    transports (snd (WriteFile srv content path permissions False)) = {BulkCopy} \<and>
    commands (snd (WriteFile srv content path permissions False)) = []) \<and>
   (transports (snd (ReadFile srv path True)) = {ShellCommand} \<and>
    commands (snd (ReadFile srv path True)) =
      (if on_NewSession srv 0 = None then [''sudo cat '' @ path] else []) \<and>
    transports (snd (ReadFile srv path False)) = {NativeTransfer} \<and>
    commands (snd (ReadFile srv path False)) = []) \<and>
   (transports (snd (DeleteFile srv path True)) = {ShellCommand} \<and>
    commands (snd (DeleteFile srv path True)) =
      (if on_NewSession srv 0 = None then [''sudo rm '' @ path] else []) \<and>
    transports (snd (DeleteFile srv path False)) = {NativeTransfer} \<and>
    commands (snd (DeleteFile srv path False)) = [])"
  by (rule conjI [OF ChmodFile_routing conjI [OF ChownFile_routing
        conjI [OF ChgrpFile_routing conjI [OF WriteFile_routing
        conjI [OF ReadFile_routing DeleteFile_routing]]]]])

lemma ChmodFile_exact:
  "ChmodFile srv path permissions elev =
     (case on_NewSession srv 0 of
        Some e \<Rightarrow> (Some e, [NewSession])
      | None \<Rightarrow>
          (case on_Run srv [] ((if elev then ''sudo chmod '' else ''chmod '') @ permissions @ '' '' @ path) of
             None \<Rightarrow> None
           | Some (e, b) \<Rightarrow>
               Some (Error ((if elev then ''sudo chmod '' else ''chmod '') @ permissions @ '' '' @ path) e b),
           [NewSession, Run ((if elev then ''sudo chmod '' else ''chmod '') @ permissions @ '' '' @ path)]))"
  by (cases elev) (simp_all add: ChmodFile_def with_sudo_def run_def Let_def split: option.split)

lemma ChownFile_exact:
  "ChownFile srv path owner elev =
     (case on_NewSession srv 0 of
        Some e \<Rightarrow> (Some e, [NewSession])
      | None \<Rightarrow>
          (case on_Run srv [] ((if elev then ''sudo chown '' else ''chown '') @ owner @ '' '' @ path) of
             None \<Rightarrow> None
           | Some (e, b) \<Rightarrow>
               Some (Error ((if elev then ''sudo chown '' else ''chown '') @ owner @ '' '' @ path) e b),
           [NewSession, Run ((if elev then ''sudo chown '' else ''chown '') @ owner @ '' '' @ path)]))"
  by (cases elev) (simp_all add: ChownFile_def with_sudo_def run_def Let_def split: option.split)

lemma ChgrpFile_exact:
  "ChgrpFile srv path grp elev =
     (case on_NewSession srv 0 of
        Some e \<Rightarrow> (Some e, [NewSession])
      | None \<Rightarrow>
          (case on_Run srv [] ((if elev then ''sudo chgrp '' else ''chgrp '') @ grp @ '' '' @ path) of
             None \<Rightarrow> None
           | Some (e, b) \<Rightarrow>
               Some (Error ((if elev then ''sudo chgrp '' else ''chgrp '') @ grp @ '' '' @ path) e b),
           [NewSession, Run ((if elev then ''sudo chgrp '' else ''chgrp '') @ grp @ '' '' @ path)]))"
  by (cases elev) (simp_all add: ChgrpFile_def with_sudo_def run_def Let_def split: option.split)

lemma WriteFile_exact:
  "WriteFile srv content path permissions True =
     (case on_NewSession srv 0 of
        Some e \<Rightarrow> (Some e, [NewSession])
      | None \<Rightarrow>
          (case on_StdinPipe srv of
             Some e \<Rightarrow> (Some e, [NewSession, StdinPipe])
           | None \<Rightarrow>
               (case on_Run srv content (''cat /dev/stdin | sudo tee '' @ path) of
                  None \<Rightarrow> None
                | Some (e, b) \<Rightarrow> Some (Error (''cat /dev/stdin | sudo tee '' @ path) e b),
                [NewSession, StdinPipe, StdinWrite content,
                 Run (''cat /dev/stdin | sudo tee '' @ path)]))) \<and>
   WriteFile srv content path permissions False =
     (case on_NewSCP srv of
        Some e \<Rightarrow> (Some e, [NewSCP])
      | None \<Rightarrow>
          (on_CopyFile srv content path permissions, [NewSCP, CopyFile content path permissions]))"
  by (simp add: WriteFile_def WriteFileShell_def WriteFileSCP_def run_def Let_def
      split: option.split)

lemma ReadFile_exact:
  "ReadFile srv path True =
     (case on_NewSession srv 0 of
        Some e \<Rightarrow> (Inl e, [NewSession])
      | None \<Rightarrow> (on_Output srv (''sudo cat '' @ path), [NewSession, Output (''sudo cat '' @ path)])) \<and>
   ReadFile srv path False =
     (case on_NewSFTP srv of
        Some e \<Rightarrow> (Inl e, [NewSFTP])
      | None \<Rightarrow>
          (case on_Open srv path of
             Some e \<Rightarrow> (Inl e, [NewSFTP, Open path])
           | None \<Rightarrow> (on_WriteTo srv path, [NewSFTP, Open path, WriteTo path])))"
  by (simp add: ReadFile_def ReadFileShell_def ReadFileSFTP_def Let_def
      split: option.split sum.split)

lemma DeleteFile_exact:
  "DeleteFile srv path True =
     (case on_NewSession srv 0 of
        Some e \<Rightarrow> (Some e, [NewSession])
      | None \<Rightarrow>
          (case on_Run srv [] (''sudo rm '' @ path) of
             None \<Rightarrow> None
           | Some (e, b) \<Rightarrow> Some (Error (''sudo rm '' @ path) e b),
           [NewSession, Run (''sudo rm '' @ path)])) \<and>
   DeleteFile srv path False =
     (case on_NewSFTP srv of
        Some e \<Rightarrow> (Some e, [NewSFTP])
      | None \<Rightarrow> (on_Remove srv path, [NewSFTP, Remove path]))"
  by (simp add: DeleteFile_def DeleteFileShell_def DeleteFileSFTP_def run_def Let_def
      split: option.split)

text \<open>
  Claim C4. For every remote end, path, content, permissions, owner, group and elevation
  flag: \<open>ChmodFile\<close>, \<open>ChownFile\<close> and \<open>ChgrpFile\<close> touch the shell transport
  only and, once the session is open, send exactly one command, \<open>chmod\<close>, \<open>chown\<close> or
  \<open>chgrp\<close> with its arguments, prefixed with \<open>sudo\<close> exactly when elevation is
  requested. \<open>WriteFile\<close>, \<open>ReadFile\<close> and \<open>DeleteFile\<close> with elevation touch the shell
  transport only and send \<open>cat /dev/stdin | sudo tee\<close>, \<open>sudo cat\<close> and \<open>sudo rm\<close>;
  without elevation they send no command, and \<open>WriteFile\<close> touches the bulk-copy
  protocol only, \<open>ReadFile\<close> and \<open>DeleteFile\<close> the native-transfer protocol only.
  For each operation and flag the result and the whole list of events are the ones of
  that route: the shell operations open a session, run their command and return its
  error; \<open>WriteFile\<close> without elevation opens the bulk-copy client and copies the
  content to the path with the permissions, returning the error of the copy; \<open>ReadFile\<close>
  without elevation opens the native-transfer client, opens the file and returns what
  reading it gives; \<open>DeleteFile\<close> without elevation opens the native-transfer client
  and returns the error of removing the path.
\<close>

theorem elevation_routing:
  "((transports (snd (ChmodFile srv path permissions elev)) = {ShellCommand} \<and>
    commands (snd (ChmodFile srv path permissions elev)) =
      (if on_NewSession srv 0 = None
       then [(if elev then ''sudo chmod '' else ''chmod '') @ permissions @ '' '' @ path] else [])) \<and>
   (transports (snd (ChownFile srv path owner elev)) = {ShellCommand} \<and>
    commands (snd (ChownFile srv path owner elev)) =
      (if on_NewSession srv 0 = None
       then [(if elev then ''sudo chown '' else ''chown '') @ owner @ '' '' @ path] else [])) \<and>
   (transports (snd (ChgrpFile srv path grp elev)) = {ShellCommand} \<and>
    commands (snd (ChgrpFile srv path grp elev)) =
      (if on_NewSession srv 0 = None
       then [(if elev then ''sudo chgrp '' else ''chgrp '') @ grp @ '' '' @ path] else [])) \<and>
   (transports (snd (WriteFile srv content path permissions True)) = {ShellCommand} \<and>
    commands (snd (WriteFile srv content path permissions True)) =
      (if on_NewSession srv 0 = None \<and> on_StdinPipe srv = None
       then [''cat /dev/stdin | sudo tee '' @ path] else []) \<and>
    transports (snd (WriteFile srv content path permissions False)) = {BulkCopy} \<and>
    commands (snd (WriteFile srv content path permissions False)) = []) \<and>
   (transports (snd (ReadFile srv path True)) = {ShellCommand} \<and>
    commands (snd (ReadFile srv path True)) =
      (if on_NewSession srv 0 = None then [''sudo cat '' @ path] else []) \<and>
    transports (snd (ReadFile srv path False)) = {NativeTransfer} \<and>
    commands (snd (ReadFile srv path False)) = []) \<and>
   (transports (snd (DeleteFile srv path True)) = {ShellCommand} \<and>
    commands (snd (DeleteFile srv path True)) =
      (if on_NewSession srv 0 = None then [''sudo rm '' @ path] else []) \<and>
    transports (snd (DeleteFile srv path False)) = {NativeTransfer} \<and>
    commands (snd (DeleteFile srv path False)) = [])) \<and>
   (ChmodFile srv path permissions elev =
     (case on_NewSession srv 0 of
        Some e \<Rightarrow> (Some e, [NewSession])
      | None \<Rightarrow>
          (case on_Run srv [] ((if elev then ''sudo chmod '' else ''chmod '') @ permissions @ '' '' @ path) of
             None \<Rightarrow> None
           | Some (e, b) \<Rightarrow>
               Some (Error ((if elev then ''sudo chmod '' else ''chmod '') @ permissions @ '' '' @ path) e b),
           [NewSession, Run ((if elev then ''sudo chmod '' else ''chmod '') @ permissions @ '' '' @ path)]))) \<and>
   (ChownFile srv path owner elev =
     (case on_NewSession srv 0 of
        Some e \<Rightarrow> (Some e, [NewSession])
      | None \<Rightarrow>
          (case on_Run srv [] ((if elev then ''sudo chown '' else ''chown '') @ owner @ '' '' @ path) of
             None \<Rightarrow> None
           | Some (e, b) \<Rightarrow>
               Some (Error ((if elev then ''sudo chown '' else ''chown '') @ owner @ '' '' @ path) e b),
           [NewSession, Run ((if elev then ''sudo chown '' else ''chown '') @ owner @ '' '' @ path)]))) \<and>
   (ChgrpFile srv path grp elev =
     (case on_NewSession srv 0 of
        Some e \<Rightarrow> (Some e, [NewSession])
      | None \<Rightarrow>
          (case on_Run srv [] ((if elev then ''sudo chgrp '' else ''chgrp '') @ grp @ '' '' @ path) of
             None \<Rightarrow> None
           | Some (e, b) \<Rightarrow>
               Some (Error ((if elev then ''sudo chgrp '' else ''chgrp '') @ grp @ '' '' @ path) e b),
           [NewSession, Run ((if elev then ''sudo chgrp '' else ''chgrp '') @ grp @ '' '' @ path)]))) \<and>
   (WriteFile srv content path permissions True =
     (case on_NewSession srv 0 of
        Some e \<Rightarrow> (Some e, [NewSession])
      | None \<Rightarrow>
          (case on_StdinPipe srv of
             Some e \<Rightarrow> (Some e, [NewSession, StdinPipe])
           | None \<Rightarrow>
               (case on_Run srv content (''cat /dev/stdin | sudo tee '' @ path) of
                  None \<Rightarrow> None
                | Some (e, b) \<Rightarrow> Some (Error (''cat /dev/stdin | sudo tee '' @ path) e b),
                [NewSession, StdinPipe, StdinWrite content,
                 Run (''cat /dev/stdin | sudo tee '' @ path)]))) \<and>
   WriteFile srv content path permissions False =
     (case on_NewSCP srv of
        Some e \<Rightarrow> (Some e, [NewSCP])
      | None \<Rightarrow>
          (on_CopyFile srv content path permissions, [NewSCP, CopyFile content path permissions]))) \<and>
   (ReadFile srv path True =
     (case on_NewSession srv 0 of
        Some e \<Rightarrow> (Inl e, [NewSession])
      | None \<Rightarrow> (on_Output srv (''sudo cat '' @ path), [NewSession, Output (''sudo cat '' @ path)])) \<and>
   ReadFile srv path False =
     (case on_NewSFTP srv of
        Some e \<Rightarrow> (Inl e, [NewSFTP])
      | None \<Rightarrow>
          (case on_Open srv path of
             Some e \<Rightarrow> (Inl e, [NewSFTP, Open path])
           | None \<Rightarrow> (on_WriteTo srv path, [NewSFTP, Open path, WriteTo path])))) \<and>
   (DeleteFile srv path True =
     (case on_NewSession srv 0 of
        Some e \<Rightarrow> (Some e, [NewSession])
      | None \<Rightarrow>
          (case on_Run srv [] (''sudo rm '' @ path) of
             None \<Rightarrow> None
           | Some (e, b) \<Rightarrow> Some (Error (''sudo rm '' @ path) e b),
           [NewSession, Run (''sudo rm '' @ path)])) \<and>
   DeleteFile srv path False =
     (case on_NewSFTP srv of
        Some e \<Rightarrow> (Some e, [NewSFTP])
      | None \<Rightarrow> (on_Remove srv path, [NewSFTP, Remove path])))"
  by (rule conjI [OF routing_transports conjI [OF ChmodFile_exact conjI [OF ChownFile_exact
        conjI [OF ChgrpFile_exact conjI [OF WriteFile_exact
        conjI [OF ReadFile_exact DeleteFile_exact]]]]]])

theorem elevation_routing_witness:
  "ChmodFile quiet_server ''/tmp/x'' ''0644'' True =
     (None, [NewSession, Run ''sudo chmod 0644 /tmp/x'']) \<and>
   ChownFile quiet_server ''/tmp/x'' ''1000'' False =
     (None, [NewSession, Run ''chown 1000 /tmp/x'']) \<and>
   ChgrpFile quiet_server ''/tmp/x'' ''1001'' False =
     (None, [NewSession, Run ''chgrp 1001 /tmp/x'']) \<and>
   WriteFile quiet_server ''hello'' ''/tmp/x'' ''0644'' True =
     (None, [NewSession, StdinPipe, StdinWrite ''hello'', Run ''cat /dev/stdin | sudo tee /tmp/x'']) \<and>
   WriteFile quiet_server ''hello'' ''/tmp/x'' ''0644'' False =
     (None, [NewSCP, CopyFile ''hello'' ''/tmp/x'' ''0644'']) \<and>
   ReadFile hello_server ''/tmp/x'' True =
     (Inr ''hello'', [NewSession, Output ''sudo cat /tmp/x'']) \<and>
   ReadFile hello_server ''/tmp/x'' False =
     (Inr ''hello'', [NewSFTP, Open ''/tmp/x'', WriteTo ''/tmp/x'']) \<and>
   DeleteFile quiet_server ''/tmp/x'' True = (None, [NewSession, Run ''sudo rm /tmp/x'']) \<and>
   DeleteFile quiet_server ''/tmp/x'' False = (None, [NewSFTP, Remove ''/tmp/x''])"
  using elevation_routing [of quiet_server "''/tmp/x''" "''0644''" True "''1000''" "''1001''" "''hello''"]
    elevation_routing [of quiet_server "''/tmp/x''" "''0644''" False "''1000''" "''1001''" "''hello''"]
    elevation_routing [of hello_server "''/tmp/x''" "''0644''" False "''1000''" "''1001''" "''hello''"]
  by (simp add: quiet_server_def hello_server_def)

section \<open>The existence check\<close>

lemma FileExists_present:
  "on_NewSession srv 0 = None \<Longrightarrow>
   on_Run srv [] ((if elev then ''sudo test -f '' else ''test -f '') @ path) = None \<Longrightarrow>
   FileExists srv path elev =
     ((True, None), [NewSession, Run ((if elev then ''sudo test -f '' else ''test -f '') @ path)])"
  by (cases elev) (simp_all add: FileExists_def with_sudo_def run_def Let_def)

lemma FileExists_absent:
  "on_NewSession srv 0 = None \<Longrightarrow>
   on_Run srv [] ((if elev then ''sudo test -f '' else ''test -f '') @ path) = Some (e1, b1) \<Longrightarrow>
   on_NewSession srv 1 = None \<Longrightarrow>
   FileExists srv path elev =
     ((False, map_option fst (on_Run srv [] ((if elev then ''sudo test ! -f '' else ''test ! -f '') @ path))),
      [NewSession, Run ((if elev then ''sudo test -f '' else ''test -f '') @ path),
       NewSession, Run ((if elev then ''sudo test ! -f '' else ''test ! -f '') @ path)])"
  by (cases elev) (simp_all add: FileExists_def with_sudo_def run_def Let_def)

text \<open>
  Claim C6. With the session open, \<open>FileExists\<close> first sends \<open>test -f path\<close>, with
  \<open>sudo\<close> in front when elevation is requested. If that command exits 0 the result is
  true with no error and nothing else is sent. If it fails, \<open>FileExists\<close> opens a
  second session and sends \<open>test ! -f path\<close> (with the same prefix): when this one
  succeeds the result is false with no error, and when it fails too the result is false
  together with the error of the second command.
\<close>

theorem FileExists_probes:
  "on_NewSession srv 0 = None \<longrightarrow>
   (on_Run srv [] ((if elev then ''sudo test -f '' else ''test -f '') @ path) = None \<longrightarrow>
      FileExists srv path elev =
        ((True, None),
         [NewSession, Run ((if elev then ''sudo test -f '' else ''test -f '') @ path)])) \<and>
   (on_Run srv [] ((if elev then ''sudo test -f '' else ''test -f '') @ path) = Some (e1, b1) \<and>
    on_NewSession srv 1 = None \<longrightarrow>
      (on_Run srv [] ((if elev then ''sudo test ! -f '' else ''test ! -f '') @ path) = None \<longrightarrow>
         FileExists srv path elev =
           ((False, None),
            [NewSession, Run ((if elev then ''sudo test -f '' else ''test -f '') @ path),
             NewSession, Run ((if elev then ''sudo test ! -f '' else ''test ! -f '') @ path)])) \<and>
      (on_Run srv [] ((if elev then ''sudo test ! -f '' else ''test ! -f '') @ path) = Some (e2, b2) \<longrightarrow>
         FileExists srv path elev =
           ((False, Some e2),
            [NewSession, Run ((if elev then ''sudo test -f '' else ''test -f '') @ path),
             NewSession, Run ((if elev then ''sudo test ! -f '' else ''test ! -f '') @ path)])))"
  using FileExists_present [of srv elev path] FileExists_absent [of srv elev path e1 b1]
  by simp

theorem FileExists_probes_witness:
  "FileExists quiet_server ''/tmp/x'' False = ((True, None), [NewSession, Run ''test -f /tmp/x'']) \<and>
   FileExists missing_file_server ''/tmp/x'' False =
     ((False, None),
      [NewSession, Run ''test -f /tmp/x'', NewSession, Run ''test ! -f /tmp/x'']) \<and>
   FileExists failing_server ''/tmp/x'' True =
     ((False, Some exit_1),
      [NewSession, Run ''sudo test -f /tmp/x'', NewSession, Run ''sudo test ! -f /tmp/x''])"
  using FileExists_probes [of quiet_server False "''/tmp/x''" exit_1 "[]" exit_1 "[]"]
    FileExists_probes [of missing_file_server False "''/tmp/x''" exit_1 "[]" exit_1 "[]"]
    FileExists_probes [of failing_server True "''/tmp/x''" exit_1 "''Permission denied''" exit_1
      "''Permission denied''"]
  by (simp add: quiet_server_def missing_file_server_def failing_server_def)

section \<open>Permission strings\<close>

text \<open>
  Claim C7. \<open>ReadFilePermissions\<close> runs \<open>stat -c %a path\<close> and removes the newline. The
  claim asks for four octal digits whenever the text has one to three characters. The
  code puts a single \<open>0\<close> in front: the output \<open>44\<close> of a file of mode 0044 is reported
  as \<open>044\<close> and the output \<open>0\<close> as \<open>00\<close>, both shorter than four digits, while
  \<open>644\<close> becomes \<open>0644\<close> and \<open>1755\<close> stays \<open>1755\<close>.
\<close>

theorem ReadFilePermissions_pads_one_zero:
  "fst (ReadFilePermissions (stat_server (''44'' @ [newline])) ''/tmp/x'' False) = Inr ''044'' \<and>
   fst (ReadFilePermissions (stat_server (''0'' @ [newline])) ''/tmp/x'' False) = Inr ''00'' \<and>
   fst (ReadFilePermissions (stat_server (''644'' @ [newline])) ''/tmp/x'' False) = Inr ''0644'' \<and>
   fst (ReadFilePermissions (stat_server (''1755'' @ [newline])) ''/tmp/x'' False) = Inr ''1755''"
  by (simp add: ReadFilePermissions_def stat_server_def quiet_server_def pad_permissions_def
      ReplaceAll_newline_def newline_def with_sudo_def Let_def)

section \<open>Errors of the shell operations\<close>

text \<open>
  Claim C8, as stated, fails: \<open>StatFile\<close> on a remote end whose command exits with
  status 1 returns the error of \<open>session.Output\<close> as it is, which is not the struct
  \<open>Error\<close>.
\<close>

theorem StatFile_failure_is_unwrapped:
  "fst (StatFile failing_server ''/tmp/x'' ''u'' False) = Inl exit_1 \<and> \<not> is_Error exit_1"
  by (simp add: StatFile_def failing_server_def quiet_server_def exit_1_def is_Error_def
      with_sudo_def Let_def)

lemma run_failure:
  "on_Run srv stdin c = Some (e, b) \<Longrightarrow> run srv stdin c = Some (Error c e b)"
  by (simp add: run_def)

text \<open>
  Claim C8, amended. With the session open, the operations that send their command
  through the helper \<open>run\<close> (\<open>ChmodFile\<close>, \<open>ChownFile\<close>, \<open>ChgrpFile\<close>, and
  \<open>DeleteFile\<close> and \<open>WriteFile\<close> with elevation) return, when the command fails, the
  struct \<open>Error\<close> with the command text, the underlying error and the captured standard
  error. The operations that read the command's output (\<open>ReadFile\<close> with elevation,
  \<open>ReadFilePermissions\<close>, \<open>StatFile\<close>) return the underlying error unwrapped, and so
  does \<open>FileExists\<close> when both of its probes fail.
\<close>

theorem run_failure_is_structured:
  "on_NewSession srv 0 = None \<longrightarrow>
   (on_Run srv [] ((if elev then ''sudo chmod '' else ''chmod '') @ permissions @ '' '' @ path) = Some (e, b) \<longrightarrow>
      fst (ChmodFile srv path permissions elev) =
        Some (Error ((if elev then ''sudo chmod '' else ''chmod '') @ permissions @ '' '' @ path) e b)) \<and>
   (on_Run srv [] ((if elev then ''sudo chown '' else ''chown '') @ owner @ '' '' @ path) = Some (e, b) \<longrightarrow>
      fst (ChownFile srv path owner elev) =
        Some (Error ((if elev then ''sudo chown '' else ''chown '') @ owner @ '' '' @ path) e b)) \<and>
   (on_Run srv [] ((if elev then ''sudo chgrp '' else ''chgrp '') @ grp @ '' '' @ path) = Some (e, b) \<longrightarrow>
      fst (ChgrpFile srv path grp elev) =
        Some (Error ((if elev then ''sudo chgrp '' else ''chgrp '') @ grp @ '' '' @ path) e b)) \<and>
   (on_Run srv [] (''sudo rm '' @ path) = Some (e, b) \<longrightarrow>
      fst (DeleteFile srv path True) = Some (Error (''sudo rm '' @ path) e b)) \<and>
   (on_StdinPipe srv = None \<and>
    on_Run srv content (''cat /dev/stdin | sudo tee '' @ path) = Some (e, b) \<longrightarrow>
      fst (WriteFile srv content path permissions True) =
        Some (Error (''cat /dev/stdin | sudo tee '' @ path) e b)) \<and>
   (on_Output srv (''sudo cat '' @ path) = Inl e \<longrightarrow>
      fst (ReadFile srv path True) = Inl e) \<and>
   (on_Output srv ((if elev then ''sudo stat -c %a '' else ''stat -c %a '') @ path) = Inl e \<longrightarrow>
      fst (ReadFilePermissions srv path elev) = Inl e) \<and>
   (on_Output srv ((if elev then ''sudo stat -c %'' else ''stat -c %'') @ char @ '' '' @ path) = Inl e \<longrightarrow>
      fst (StatFile srv path char elev) = Inl e) \<and>
   (on_Run srv [] ((if elev then ''sudo test -f '' else ''test -f '') @ path) = Some (e, b) \<and>
    on_NewSession srv 1 = None \<and>
    on_Run srv [] ((if elev then ''sudo test ! -f '' else ''test ! -f '') @ path) = Some (e', b') \<longrightarrow>
      fst (FileExists srv path elev) = (False, Some e'))"
  by (cases elev)
    (simp_all add: ChmodFile_def ChownFile_def ChgrpFile_def DeleteFile_def DeleteFileShell_def
      WriteFile_def WriteFileShell_def ReadFile_def ReadFileShell_def ReadFilePermissions_def
      StatFile_def FileExists_def with_sudo_def run_failure Let_def)

theorem run_failure_is_structured_witness:
  "fst (ChmodFile failing_server ''/tmp/x'' ''0644'' False) =
     Some (Error ''chmod 0644 /tmp/x'' exit_1 ''Permission denied'') \<and>
   fst (ChownFile failing_server ''/tmp/x'' ''1000'' False) =
     Some (Error ''chown 1000 /tmp/x'' exit_1 ''Permission denied'') \<and>
   fst (ChgrpFile failing_server ''/tmp/x'' ''1001'' False) =
     Some (Error ''chgrp 1001 /tmp/x'' exit_1 ''Permission denied'') \<and>
   fst (DeleteFile failing_server ''/tmp/x'' True) =
     Some (Error ''sudo rm /tmp/x'' exit_1 ''Permission denied'') \<and>
   fst (WriteFile failing_server ''hello'' ''/tmp/x'' ''0644'' True) =
     Some (Error ''cat /dev/stdin | sudo tee /tmp/x'' exit_1 ''Permission denied'') \<and>
   fst (ReadFile failing_server ''/tmp/x'' True) = Inl exit_1 \<and>
   fst (ReadFilePermissions failing_server ''/tmp/x'' False) = Inl exit_1 \<and>
   fst (StatFile failing_server ''/tmp/x'' ''u'' False) = Inl exit_1 \<and>
   fst (FileExists failing_server ''/tmp/x'' False) = (False, Some exit_1)"
  using run_failure_is_structured [of failing_server False "''0644''" "''/tmp/x''" exit_1
      "''Permission denied''" "''1000''" "''1001''" "''hello''" "''u''" exit_1 "''Permission denied''"]
  by (simp add: failing_server_def quiet_server_def)

section \<open>Permissions of an elevated write\<close>


section \<open>Connection identity\<close>

lemma digits_8022: "digits 8022 = ''8022''"
  by (simp add: digits.simps digit_char_def)

lemma Itoa_8022: "Itoa 8022 = ''8022''"
  by (simp add: Itoa_def digits_8022)

text \<open>
  Claim C2. The claim asks that two configurations with the same identity agree on every
  identity-relevant field, the name of the environment variable holding the private key
  among them. \<open>resourceConnectionHash\<close> joins host, user, port, password, private key,
  key path and agent flag of the connection and of the proxy, and leaves
  \<open>private_key_env_var\<close> out: two connections that read their key from different
  variables get the same identity and share one pooled client.
\<close>

theorem resourceConnectionHash_omits_env_var:
  "resourceConnectionHash \<lparr>conn = [conn_key_A], proxy_conn = []\<rparr> =
     ''localhost::root::8022::::::::false::::::::::::::'' \<and>
   resourceConnectionHash \<lparr>conn = [conn_key_B], proxy_conn = []\<rparr> =
     ''localhost::root::8022::::::::false::::::::::::::'' \<and>
   private_key_env_var conn_key_A = ''KEY_A'' \<and> private_key_env_var conn_key_B = ''KEY_B''"
  by (simp add: resourceConnectionHash_def conn_key_A_def conn_key_B_def conn0_def
      Get_string_def Get_int_def Get_bool_def resourceStringWithDefault_def GetOk_string_def
      resourceIntWithDefault_def resourceBoolWithDefault_def GetOk_int_def GetOk_bool_def
      FormatBool_def Itoa_8022)

lemma resourceConnectionHash_ignores_env_var:
  "resourceConnectionHash \<lparr>conn = [c\<lparr>private_key_env_var := v\<rparr>], proxy_conn = [p\<lparr>private_key_env_var := v'\<rparr>]\<rparr> =
   resourceConnectionHash \<lparr>conn = [c], proxy_conn = [p]\<rparr>"
  by (simp add: resourceConnectionHash_def
      Get_string_def Get_int_def Get_bool_def resourceStringWithDefault_def GetOk_string_def
      resourceIntWithDefault_def resourceBoolWithDefault_def GetOk_int_def GetOk_bool_def)

section \<open>Connecting through a proxy\<close>





section \<open>Acquisition and release\<close>

text \<open>
  Claim C9. When the pool has no client for the identity and building the connection
  fails, \<open>getRemoteClient\<close> returns the builder's error and the pool, with both maps, is
  as it was.
\<close>

theorem getRemoteClient_build_failure:
  "remoteClients (pool w) (resourceConnectionHash d) = None \<Longrightarrow>
   fst (remoteClientFromResourceData env net (allocated w) d) = Inl e \<Longrightarrow>
   getRemoteClient env net d w = Some (Inl e, w)"
  by (subst getRemoteClient.simps) (simp add: getRemoteClient_pass_def Let_def)

lemma build_down: "fst (remoteClientFromResourceData env0 net_down 0 d0) =
   Inl (Err ''couldn't establish a connection to the remote server: i/o timeout'')"
  by (simp add: remoteClientFromResourceData_def ConnectionFromResourceData_def
      ProxyConnectionFromResourceData_def connFromResourceData_def d0_def conn0_def env0_def
      net_down_def net_up_def auth_password_def auth_private_key_def auth_private_key_path_def
      auth_private_key_env_var_def auth_agent_def NewRemoteClient_def timed_out_def
      couldnt_establish_def)

theorem getRemoteClient_build_failure_witness:
  "getRemoteClient env0 net_down d0 (configure 3) =
     Some (Inl (Err ''couldn't establish a connection to the remote server: i/o timeout''),
           configure 3)"
proof -
  have a: "remoteClients (pool (configure 3)) (resourceConnectionHash d0) = None"
    by (simp add: configure_def)
  have b: "fst (remoteClientFromResourceData env0 net_down (allocated (configure 3)) d0) =
      Inl (Err ''couldn't establish a connection to the remote server: i/o timeout'')"
    using build_down by (simp add: configure_def)
  show ?thesis by (rule getRemoteClient_build_failure [OF a b])
qed

subsection \<open>The loop of \<open>getRemoteClient\<close>\<close>

text \<open>
  With a pooled client and the counter at the ceiling a pass retries and leaves the pool
  as it is, so a call that no release interrupts does not return; with headroom the call
  returns the pooled client after one pass and has added 1 to the counter.
\<close>

lemma pass_full:
  "remoteClients (pool w) (resourceConnectionHash d) = Some client \<Longrightarrow>
   maxSessions (pool w) \<le> sessions (pool w) (resourceConnectionHash d) \<Longrightarrow>
   getRemoteClient_pass env net d w = (Retry, w)"
  by (simp add: getRemoteClient_pass_def Let_def)

lemma getRemoteClient_returns_not_full:
  assumes "getRemoteClient env net d w = Some y"
  shows "\<not> (\<exists>client. remoteClients (pool w) (resourceConnectionHash d) = Some client \<and>
            maxSessions (pool w) \<le> sessions (pool w) (resourceConnectionHash d))"
proof (rule getRemoteClient.raw_induct
    [where P = "\<lambda>env net d w y.
       \<not> (\<exists>client. remoteClients (pool w) (resourceConnectionHash d) = Some client \<and>
            maxSessions (pool w) \<le> sessions (pool w) (resourceConnectionHash d))", OF _ assms])
  fix f :: "local_env \<Rightarrow> network \<Rightarrow> ResourceData \<Rightarrow> world \<Rightarrow> ((go_error + RemoteClient) \<times> world) option"
  fix env net d w y
  assume IH: "\<And>env net d w y. f env net d w = Some y \<Longrightarrow>
       \<not> (\<exists>client. remoteClients (pool w) (resourceConnectionHash d) = Some client \<and>
            maxSessions (pool w) \<le> sessions (pool w) (resourceConnectionHash d))"
    and body: "(case getRemoteClient_pass env net d w of
                  (Retry, w') \<Rightarrow> f env net d w'
                | (Return r, w') \<Rightarrow> Some (r, w')) = Some y"
  show "\<not> (\<exists>client. remoteClients (pool w) (resourceConnectionHash d) = Some client \<and>
            maxSessions (pool w) \<le> sessions (pool w) (resourceConnectionHash d))"
  proof
    assume "\<exists>client. remoteClients (pool w) (resourceConnectionHash d) = Some client \<and>
            maxSessions (pool w) \<le> sessions (pool w) (resourceConnectionHash d)"
    then obtain client where
      full: "remoteClients (pool w) (resourceConnectionHash d) = Some client"
         "maxSessions (pool w) \<le> sessions (pool w) (resourceConnectionHash d)"
      by blast
    with body have "f env net d w = Some y"
      by (simp add: pass_full)
    from IH [OF this] full show False by blast
  qed
qed

lemma getRemoteClient_full:
  "remoteClients (pool w) (resourceConnectionHash d) = Some client \<Longrightarrow>
   maxSessions (pool w) \<le> sessions (pool w) (resourceConnectionHash d) \<Longrightarrow>
   getRemoteClient env net d w = None"
  using getRemoteClient_returns_not_full [of env net d w] by (cases "getRemoteClient env net d w") auto

lemma getRemoteClient_headroom:
  "remoteClients (pool w) (resourceConnectionHash d) = Some client \<Longrightarrow>
   sessions (pool w) (resourceConnectionHash d) < maxSessions (pool w) \<Longrightarrow>
   getRemoteClient env net d w =
     Some (Inr client,
           w\<lparr>pool := (pool w)\<lparr>activeSessions := (activeSessions (pool w))
             (resourceConnectionHash d \<mapsto> wrap64 (sessions (pool w) (resourceConnectionHash d) + 1))\<rparr>\<rparr>)"
  by (subst getRemoteClient.simps) (simp add: getRemoteClient_pass_def Let_def)

subsection \<open>The counters equal the clients the callers hold\<close>

lemma wrap64_id: "int64 x \<Longrightarrow> wrap64 x = x"
  by (simp add: wrap64_def int64_def)

lemma sessions_update:
  "sessions (c\<lparr>activeSessions := (activeSessions c)(k \<mapsto> n)\<rparr>) k' =
     (if k' = k then n else sessions c k')"
  by (simp add: sessions_def)

lemma sessions_remoteClients_update [simp]:
  "sessions (c\<lparr>remoteClients := r\<rparr>) k = sessions c k"
  by (simp add: sessions_def)

lemma pass_sessions:
  "sessions (pool (snd (getRemoteClient_pass env net d w))) k =
     (if k = resourceConnectionHash d then
        (case remoteClients (pool w) k of
           Some client \<Rightarrow>
             if sessions (pool w) k \<ge> maxSessions (pool w) then sessions (pool w) k
             else wrap64 (sessions (pool w) k + 1)
         | None \<Rightarrow>
             (case fst (remoteClientFromResourceData env net (allocated w) d) of
                Inl e \<Rightarrow> sessions (pool w) k
              | Inr client \<Rightarrow> 1))
      else sessions (pool w) k)"
  by (auto simp: getRemoteClient_pass_def Let_def sessions_def split: option.split sum.split)

lemma pass_maxSessions:
  "maxSessions (pool (snd (getRemoteClient_pass env net d w))) = maxSessions (pool w)"
  by (simp add: getRemoteClient_pass_def Let_def split: option.split sum.split)

lemma close_sessions:
  "sessions (pool (snd (closeRemoteClient on_Close d w))) k =
     (if k = resourceConnectionHash d then wrap64 (sessions (pool w) k - 1)
      else sessions (pool w) k)"
  by (simp add: closeRemoteClient_def Let_def sessions_update split: option.split)

lemma close_maxSessions:
  "maxSessions (pool (snd (closeRemoteClient on_Close d w))) = maxSessions (pool w)"
  by (simp add: closeRemoteClient_def Let_def split: option.split)

lemma pass_clients:
  "remoteClients (pool (snd (getRemoteClient_pass env net d w))) k =
     (if k = resourceConnectionHash d \<and> remoteClients (pool w) k = None then
        (case fst (remoteClientFromResourceData env net (allocated w) d) of
           Inl e \<Rightarrow> None
         | Inr client \<Rightarrow> Some client)
      else remoteClients (pool w) k)"
  by (auto simp: getRemoteClient_pass_def Let_def split: option.split sum.split)

lemma close_clients:
  "remoteClients (pool (snd (closeRemoteClient on_Close d w))) k =
     (if k = resourceConnectionHash d \<and> wrap64 (sessions (pool w) k - 1) = 0 then None
      else remoteClients (pool w) k)"
  by (auto simp: closeRemoteClient_def Let_def split: option.split)






lemma build_up: "fst (remoteClientFromResourceData env0 net_up a d0) = Inr \<lparr>sshClient = a\<rparr>"
  by (simp add: remoteClientFromResourceData_def ConnectionFromResourceData_def
      ProxyConnectionFromResourceData_def connFromResourceData_def d0_def conn0_def env0_def
      net_up_def auth_password_def auth_private_key_def auth_private_key_path_def
      auth_private_key_env_var_def auth_agent_def NewRemoteClient_def)

lemma build_address:
  "fst (remoteClientFromResourceData env net a d) = Inr c \<Longrightarrow> c = \<lparr>sshClient = a\<rparr>"
  by (auto simp: remoteClientFromResourceData_def NewRemoteClient_def NewRemoteProxyClient_def
      split: sum.splits option.splits prod.splits if_splits)


lemma acquire_first:
  "snd (getRemoteClient_pass env0 net_up d0 (configure m)) =
     \<lparr>pool = \<lparr>remoteClients = [resourceConnectionHash d0 \<mapsto> \<lparr>sshClient = 0\<rparr>],
              activeSessions = [resourceConnectionHash d0 \<mapsto> 1], maxSessions = m\<rparr>,
      allocated = Suc 0, closed = []\<rparr>"
  by (simp add: getRemoteClient_pass_def configure_def build_up Let_def)





subsection \<open>Clients are closed once\<close>

lemma pass_closed: "closed (snd (getRemoteClient_pass env net d w)) = closed w"
  by (auto simp: getRemoteClient_pass_def Let_def split: option.split sum.split)

lemma pass_allocated:
  "allocated (snd (getRemoteClient_pass env net d w)) =
     (if remoteClients (pool w) (resourceConnectionHash d) = None then
        (case fst (remoteClientFromResourceData env net (allocated w) d) of
           Inl e \<Rightarrow> allocated w
         | Inr client \<Rightarrow> Suc (allocated w))
      else allocated w)"
  by (auto simp: getRemoteClient_pass_def Let_def split: option.split sum.split)

lemma close_closed:
  "closed (snd (closeRemoteClient on_Close d w)) =
     (if wrap64 (sessions (pool w) (resourceConnectionHash d) - 1) = 0 then
        (case remoteClients (pool w) (resourceConnectionHash d) of
           None \<Rightarrow> closed w
         | Some client \<Rightarrow> closed w @ [client])
      else closed w)"
  by (auto simp: closeRemoteClient_def Let_def split: option.split)

lemma close_allocated: "allocated (snd (closeRemoteClient on_Close d w)) = allocated w"
  by (auto simp: closeRemoteClient_def Let_def split: option.split)

lemma clients_fresh_configure: "clients_fresh (configure m)"
  by (simp add: clients_fresh_def configure_def)

lemma clients_fresh_step:
  assumes "clients_fresh w"
  shows "clients_fresh (step c w)"
proof (cases c)
  case (Acquire env net d)
  show ?thesis
  proof (cases "remoteClients (pool w) (resourceConnectionHash d) = None \<and>
      (\<exists>client. fst (remoteClientFromResourceData env net (allocated w) d) = Inr client)")
    case True
    then obtain client where
      n: "remoteClients (pool w) (resourceConnectionHash d) = None" and
      b: "fst (remoteClientFromResourceData env net (allocated w) d) = Inr client"
      by blast
    have a: "sshClient client = allocated w"
      using build_address [OF b] by simp
    have f1: "remoteClients (pool w) k \<noteq> Some client" for k
    proof
      assume "remoteClients (pool w) k = Some client"
      with assms have "sshClient client < allocated w"
        unfolding clients_fresh_def by blast
      with a show False by simp
    qed
    have f2: "client \<notin> set (closed w)"
    proof
      assume "client \<in> set (closed w)"
      with assms have "sshClient client < allocated w"
        unfolding clients_fresh_def by blast
      with a show False by simp
    qed
    note f = f1 f2
    show ?thesis
      using assms n b a f unfolding clients_fresh_def Acquire
      by (auto simp: pass_clients pass_closed pass_allocated less_Suc_eq split: if_splits)
  next
    case False
    then have "step c w = w \<or>
      (remoteClients (pool (step c w)) = remoteClients (pool w) \<and>
       closed (step c w) = closed w \<and> allocated (step c w) = allocated w)"
      using Acquire
      by (auto simp: getRemoteClient_pass_def Let_def split: option.split sum.split)
    then show ?thesis
      using assms by (auto simp: clients_fresh_def)
  qed
next
  case (Release on_Close d)
  show ?thesis
    using assms unfolding clients_fresh_def Release
    by (auto simp: close_clients close_closed close_allocated split: if_splits option.splits)
qed

lemma clients_fresh_run_calls: "clients_fresh w \<Longrightarrow> clients_fresh (run_calls cs w)"
  by (induction cs arbitrary: w) (simp_all add: clients_fresh_step)

lemma closed_step: "\<exists>ys. closed (step c w) = closed w @ ys"
  by (cases c) (auto simp: pass_closed close_closed split: option.split)

lemma closed_run_calls: "\<exists>ys. closed (run_calls cs w) = closed w @ ys"
proof (induction cs arbitrary: w)
  case Nil
  then show ?case by simp
next
  case (Cons c cs)
  obtain ys where "closed (step c w) = closed w @ ys"
    using closed_step by blast
  moreover obtain zs where "closed (run_calls cs (step c w)) = closed (step c w) @ zs"
    using Cons.IH by blast
  ultimately show ?case by simp
qed

lemma counted_configure: "counted 0 (configure m)"
  by (simp add: counted_def configure_def sessions_def)

lemma counted_step:
  assumes m: "int64 (maxSessions (pool w))" and n: "0 \<le> n" "n < 2 ^ 63" and k: "counted n w"
  shows "counted (n + 1) (step c w)"
proof (cases c)
  case (Acquire env net d)
  have "case remoteClients (pool (step c w)) k of
            Some x \<Rightarrow> 1 \<le> sessions (pool (step c w)) k \<and> sessions (pool (step c w)) k < 2 ^ 63
          | None \<Rightarrow> - (n + 1) \<le> sessions (pool (step c w)) k \<and> sessions (pool (step c w)) k \<le> 0" for k
  proof -
    have s: "case remoteClients (pool w) k of
            Some x \<Rightarrow> 1 \<le> sessions (pool w) k \<and> sessions (pool w) k < 2 ^ 63
          | None \<Rightarrow> - n \<le> sessions (pool w) k \<and> sessions (pool w) k \<le> 0"
      using k by (simp add: counted_def)
    have "1 \<le> sessions (pool w) k \<Longrightarrow> sessions (pool w) k < maxSessions (pool w) \<Longrightarrow>
        wrap64 (sessions (pool w) k + 1) = sessions (pool w) k + 1"
      using m by (intro wrap64_id) (simp add: int64_def)
    then show ?thesis
      using s m n Acquire
      by (auto simp: pass_sessions pass_clients int64_def split: option.splits sum.splits)
  qed
  then show ?thesis by (simp add: counted_def)
next
  case (Release on_Close d)
  have "case remoteClients (pool (step c w)) k of
            Some x \<Rightarrow> 1 \<le> sessions (pool (step c w)) k \<and> sessions (pool (step c w)) k < 2 ^ 63
          | None \<Rightarrow> - (n + 1) \<le> sessions (pool (step c w)) k \<and> sessions (pool (step c w)) k \<le> 0" for k
  proof -
    have s: "case remoteClients (pool w) k of
            Some x \<Rightarrow> 1 \<le> sessions (pool w) k \<and> sessions (pool w) k < 2 ^ 63
          | None \<Rightarrow> - n \<le> sessions (pool w) k \<and> sessions (pool w) k \<le> 0"
      using k by (simp add: counted_def)
    have "int64 (sessions (pool w) k - 1)"
      using s n by (auto simp: int64_def split: option.splits)
    then have "wrap64 (sessions (pool w) k - 1) = sessions (pool w) k - 1"
      by (rule wrap64_id)
    then show ?thesis
      using s n Release
      by (auto simp: close_sessions close_clients split: option.splits)
  qed
  then show ?thesis by (simp add: counted_def)
qed

lemma maxSessions_step: "maxSessions (pool (step c w)) = maxSessions (pool w)"
  by (cases c) (simp_all add: pass_maxSessions close_maxSessions)

lemma counted_run_calls:
  "int64 (maxSessions (pool w)) \<Longrightarrow> 0 \<le> n \<Longrightarrow> n + int (length cs) \<le> 2 ^ 63 \<Longrightarrow> counted n w \<Longrightarrow>
   counted (n + int (length cs)) (run_calls cs w)"
proof (induction cs arbitrary: w n)
  case Nil
  then show ?case by simp
next
  case (Cons c cs)
  have "counted (n + 1) (step c w)"
    using Cons.prems by (intro counted_step) simp_all
  moreover have "int64 (maxSessions (pool (step c w)))"
    using Cons.prems by (simp add: maxSessions_step)
  ultimately have "counted (n + 1 + int (length cs)) (run_calls cs (step c w))"
    using Cons.prems by (intro Cons.IH) simp_all
  then show ?case by (simp add: algebra_simps)
qed

lemma distinct_count_list_one: "distinct xs \<Longrightarrow> x \<in> set xs \<Longrightarrow> count_list xs x = 1"
  by (induction xs) auto

lemma release_last:
  assumes e: "remoteClients (pool w) (resourceConnectionHash d) = Some client"
    and s: "sessions (pool w) (resourceConnectionHash d) = 1"
  shows "closeRemoteClient on_Close d w =
     (Returned (on_Close client),
      w\<lparr>pool := (pool w)\<lparr>activeSessions := (activeSessions (pool w))(resourceConnectionHash d \<mapsto> 0),
                          remoteClients := (remoteClients (pool w))(resourceConnectionHash d := None)\<rparr>,
        closed := closed w @ [client]\<rparr>)"
  using e s by (simp add: closeRemoteClient_def Let_def wrap64_def)

lemma acquire_absent:
  assumes "remoteClients (pool w) (resourceConnectionHash d) = None"
  shows "getRemoteClient env net d w =
     Some (case fst (remoteClientFromResourceData env net (allocated w) d) of
             Inl e \<Rightarrow> (Inl e, w)
           | Inr client \<Rightarrow>
               (Inr client,
                w\<lparr>pool := (pool w)\<lparr>remoteClients := (remoteClients (pool w))(resourceConnectionHash d \<mapsto> client),
                                    activeSessions := (activeSessions (pool w))(resourceConnectionHash d \<mapsto> 1)\<rparr>,
                  allocated := Suc (allocated w)\<rparr>))"
  using assms
  by (subst getRemoteClient.simps) (simp add: getRemoteClient_pass_def Let_def split: sum.split)

text \<open>
  Claim C3. After any history of fewer than \<open>2 ^ 63\<close> calls, when the counter of an
  identity is 1, the release that brings it to 0 finds a pooled client, calls its
  \<open>Close\<close> and returns that result, and removes the entry from the map. The client was not
  closed before, and it is on the list of closed clients exactly once after the release
  and after any further history. The next \<open>getRemoteClient\<close> for the identity calls the
  builder: on failure it returns the error and leaves the pool as it is; on success it
  returns the new client, which differs from the closed one, and pools it with counter 1.
\<close>

theorem release_to_zero_closes_once:
  assumes m: "int64 max_sessions" and len: "int (length cs) < 2 ^ 63"
    and w: "w = run_calls cs (configure max_sessions)"
    and one: "sessions (pool w) (resourceConnectionHash d) = 1"
    and w': "w' = snd (closeRemoteClient on_Close d w)"
  shows "\<exists>client.
     remoteClients (pool w) (resourceConnectionHash d) = Some client \<and>
     fst (closeRemoteClient on_Close d w) = Returned (on_Close client) \<and>
     remoteClients (pool w') (resourceConnectionHash d) = None \<and>
     sessions (pool w') (resourceConnectionHash d) = 0 \<and>
     count_list (closed w) client = 0 \<and>
     closed w' = closed w @ [client] \<and>
     (\<forall>cs'. count_list (closed (run_calls cs' w')) client = 1) \<and>
     (\<forall>e. fst (remoteClientFromResourceData env net (allocated w') d) = Inl e \<longrightarrow>
        getRemoteClient env net d w' = Some (Inl e, w')) \<and>
     (\<forall>client'. fst (remoteClientFromResourceData env net (allocated w') d) = Inr client' \<longrightarrow>
        client' \<noteq> client \<and> client' \<notin> set (closed w') \<and>
        (\<exists>w''. getRemoteClient env net d w' = Some (Inr client', w'') \<and>
           remoteClients (pool w'') (resourceConnectionHash d) = Some client' \<and>
           sessions (pool w'') (resourceConnectionHash d) = 1))"
proof -
  let ?k = "resourceConnectionHash d"
  have "counted (0 + int (length cs)) (run_calls cs (configure max_sessions))"
    using m len by (intro counted_run_calls counted_configure) (simp_all add: configure_def)
  then have cnt: "counted (int (length cs)) w"
    using w by simp
  have fresh: "clients_fresh w"
    using w by (simp add: clients_fresh_run_calls clients_fresh_configure)
  obtain client where e: "remoteClients (pool w) ?k = Some client"
  proof (cases "remoteClients (pool w) ?k")
    case None
    with cnt have "sessions (pool w) ?k \<le> 0"
      unfolding counted_def by (metis (mono_tags, lifting) option.simps(4))
    with one show ?thesis by simp
  next
    case (Some c)
    then show ?thesis by (rule that)
  qed
  note r = release_last [OF e one, of on_Close]
  have c1: "fst (closeRemoteClient on_Close d w) = Returned (on_Close client)"
    by (simp add: r)
  have c2: "remoteClients (pool w') ?k = None"
    by (simp add: w' r)
  have c3: "sessions (pool w') ?k = 0"
    by (simp add: w' r sessions_def)
  have notin: "client \<notin> set (closed w)" and addr: "sshClient client < allocated w"
    using fresh e unfolding clients_fresh_def by blast+
  have c4: "count_list (closed w) client = 0"
    using notin by simp
  have c5: "closed w' = closed w @ [client]"
    by (simp add: w' r)
  have fresh': "clients_fresh w'"
    using clients_fresh_step [OF fresh, of "Release on_Close d"] by (simp add: w')
  have c6: "count_list (closed (run_calls cs' w')) client = 1" for cs'
  proof -
    obtain ys where "closed (run_calls cs' w') = closed w' @ ys"
      using closed_run_calls by blast
    then have "client \<in> set (closed (run_calls cs' w'))"
      by (simp add: c5)
    moreover have "distinct (closed (run_calls cs' w'))"
      using clients_fresh_run_calls [OF fresh'] by (simp add: clients_fresh_def)
    ultimately show ?thesis by (rule distinct_count_list_one [rotated])
  qed
  have alloc: "allocated w' = allocated w"
    by (simp add: w' r)
  have c7: "getRemoteClient env net d w' = Some (Inl e, w')"
    if "fst (remoteClientFromResourceData env net (allocated w') d) = Inl e" for e
    using that by (simp add: acquire_absent [OF c2])
  have c8: "client' \<noteq> client \<and> client' \<notin> set (closed w') \<and>
        (\<exists>w''. getRemoteClient env net d w' = Some (Inr client', w'') \<and>
           remoteClients (pool w'') ?k = Some client' \<and> sessions (pool w'') ?k = 1)"
    if b: "fst (remoteClientFromResourceData env net (allocated w') d) = Inr client'" for client'
  proof -
    have a: "sshClient client' = allocated w'"
      using build_address [OF b] by simp
    have "client' \<noteq> client"
      using a addr alloc by auto
    moreover have "client' \<notin> set (closed w')"
    proof
      assume "client' \<in> set (closed w')"
      with fresh' have "sshClient client' < allocated w'"
        unfolding clients_fresh_def by blast
      with a show False by simp
    qed
    moreover have "\<exists>w''. getRemoteClient env net d w' = Some (Inr client', w'') \<and>
           remoteClients (pool w'') ?k = Some client' \<and> sessions (pool w'') ?k = 1"
      using b by (simp add: acquire_absent [OF c2] sessions_def)
    ultimately show ?thesis by blast
  qed
  show ?thesis
    using e c1 c2 c3 c4 c5 c6 c7 c8 by blast
qed

lemma release_first:
  "closeRemoteClient close_ok d0
     \<lparr>pool = \<lparr>remoteClients = [resourceConnectionHash d0 \<mapsto> \<lparr>sshClient = 0\<rparr>],
              activeSessions = [resourceConnectionHash d0 \<mapsto> 1], maxSessions = m\<rparr>,
      allocated = Suc 0, closed = []\<rparr> =
     (Returned None,
      \<lparr>pool = \<lparr>remoteClients = Map.empty,
               activeSessions = [resourceConnectionHash d0 \<mapsto> 0], maxSessions = m\<rparr>,
       allocated = Suc 0, closed = [\<lparr>sshClient = 0\<rparr>]\<rparr>)"
  by (simp add: closeRemoteClient_def sessions_def wrap64_def close_ok_def Let_def)

lemma acquire_again:
  "getRemoteClient env0 net_up d0
     \<lparr>pool = \<lparr>remoteClients = Map.empty,
              activeSessions = [resourceConnectionHash d0 \<mapsto> 0], maxSessions = m\<rparr>,
      allocated = Suc 0, closed = [\<lparr>sshClient = 0\<rparr>]\<rparr> =
     Some (Inr \<lparr>sshClient = Suc 0\<rparr>,
       \<lparr>pool = \<lparr>remoteClients = [resourceConnectionHash d0 \<mapsto> \<lparr>sshClient = Suc 0\<rparr>],
                activeSessions = [resourceConnectionHash d0 \<mapsto> 1], maxSessions = m\<rparr>,
        allocated = Suc (Suc 0), closed = [\<lparr>sshClient = 0\<rparr>]\<rparr>)"
  by (subst getRemoteClient.simps) (simp add: getRemoteClient_pass_def build_up Let_def)

theorem release_to_zero_closes_once_witness:
  "int64 3 \<and> int (length [Acquire env0 net_up d0]) < 2 ^ 63 \<and>
   sessions (pool (run_calls [Acquire env0 net_up d0] (configure 3))) (resourceConnectionHash d0) = 1 \<and>
   remoteClients (pool (run_calls [Acquire env0 net_up d0] (configure 3))) (resourceConnectionHash d0) =
     Some \<lparr>sshClient = 0\<rparr> \<and>
   closeRemoteClient close_ok d0 (run_calls [Acquire env0 net_up d0] (configure 3)) =
     (Returned None,
      \<lparr>pool = \<lparr>remoteClients = Map.empty,
               activeSessions = [resourceConnectionHash d0 \<mapsto> 0], maxSessions = 3\<rparr>,
       allocated = 1, closed = [\<lparr>sshClient = 0\<rparr>]\<rparr>) \<and>
   count_list
     (closed (run_calls [Acquire env0 net_up d0, Release close_ok d0]
        (snd (closeRemoteClient close_ok d0 (run_calls [Acquire env0 net_up d0] (configure 3))))))
     \<lparr>sshClient = 0\<rparr> = 1 \<and>
   getRemoteClient env0 net_up d0
     (snd (closeRemoteClient close_ok d0 (run_calls [Acquire env0 net_up d0] (configure 3)))) =
     Some (Inr \<lparr>sshClient = 1\<rparr>,
       \<lparr>pool = \<lparr>remoteClients = [resourceConnectionHash d0 \<mapsto> \<lparr>sshClient = 1\<rparr>],
                activeSessions = [resourceConnectionHash d0 \<mapsto> 1], maxSessions = 3\<rparr>,
        allocated = 2, closed = [\<lparr>sshClient = 0\<rparr>]\<rparr>)"
proof -
  let ?w = "run_calls [Acquire env0 net_up d0] (configure 3)"
  let ?w' = "snd (closeRemoteClient close_ok d0 ?w)"
  have a: "int64 3" by (simp add: int64_def)
  have b: "int (length [Acquire env0 net_up d0]) < 2 ^ 63" by simp
  have c: "sessions (pool ?w) (resourceConnectionHash d0) = 1"
    by (simp add: acquire_first sessions_def)
  have e: "remoteClients (pool ?w) (resourceConnectionHash d0) = Some \<lparr>sshClient = 0\<rparr>"
    by (simp add: acquire_first)
  obtain client where
    f: "remoteClients (pool ?w) (resourceConnectionHash d0) = Some client" and
    g: "\<forall>cs'. count_list (closed (run_calls cs' ?w')) client = 1"
    using release_to_zero_closes_once [OF a b refl c refl, of close_ok env0 net_up] by blast
  from e f have "client = \<lparr>sshClient = 0\<rparr>" by simp
  with g have h: "count_list (closed (run_calls [Acquire env0 net_up d0, Release close_ok d0] ?w'))
      \<lparr>sshClient = 0\<rparr> = 1"
    by blast
  have i: "closeRemoteClient close_ok d0 ?w =
     (Returned None,
      \<lparr>pool = \<lparr>remoteClients = Map.empty,
               activeSessions = [resourceConnectionHash d0 \<mapsto> 0], maxSessions = 3\<rparr>,
       allocated = 1, closed = [\<lparr>sshClient = 0\<rparr>]\<rparr>)"
    by (simp add: acquire_first release_first)
  have j: "getRemoteClient env0 net_up d0 ?w' =
     Some (Inr \<lparr>sshClient = 1\<rparr>,
       \<lparr>pool = \<lparr>remoteClients = [resourceConnectionHash d0 \<mapsto> \<lparr>sshClient = 1\<rparr>],
                activeSessions = [resourceConnectionHash d0 \<mapsto> 1], maxSessions = 3\<rparr>,
        allocated = 2, closed = [\<lparr>sshClient = 0\<rparr>]\<rparr>)"
    by (simp add: acquire_first release_first acquire_again)
  show ?thesis
    using a b c e h i j by blast
qed

end
